theory Spec2Isabelle
  imports Main "HOL-Library.Sublist" "HOL-Library.AList"
begin

section \<open>Errors as values\<close>

text \<open>
  Go's \<open>int\<close> is modelled as \<open>int\<close>: the code compares, copies and prints these numbers
  and never does arithmetic that could wrap.  \<open>[]byte\<close> and \<open>string\<close> are both
  \<open>string\<close> (a list of bytes); a nil slice is the empty list.
\<close>

record StackFrame =
  FileName :: string
  ClassName :: string
  MethodName :: string
  LineNumber :: int

record CommandError =
  StatusCode :: int
  ErrorType :: string
  Message :: string
  Screen :: string
  Class :: string
  StackTrace :: "StackFrame list"

text \<open>
  An \<open>error\<close> value is one of: a string made by \<open>errors.New\<close>, a pointer to a
  \<open>CommandError\<close> (what \<open>parseError\<close> returns), or an error handed back by a library
  call (net, os, http, json, zip, xml), of which only its text is kept.
\<close>

datatype error =
    errors_New string
  | CommandError_ptr CommandError
  | lib_error string

definition statusCodeStrings :: "int \<Rightarrow> string option" where
  "statusCodeStrings = map_of
    [(0, ''The command executed successfully.''),
     (6, ''A session is either terminated or not started.''),
     (7, ''An element could not be located on the page using the given search parameters.''),
     (8, ''A request to switch to a frame could not be satisfied because the frame could not be found.''),
     (9, ''The requested resource could not be found, or a request was received using an HTTP method that is not supported by the mapped resource.''),
     (10, ''An element command failed because the referenced element is no longer attached to the DOM.''),
     (11, ''An element command could not be completed because the element is not visible on the page.''),
     (12, ''An element command could not be completed because the element is in an invalid state (e.g. attempting to click a disabled element).''),
     (13, ''An unknown server-side error occurred while processing the command.''),
     (15, ''An attempt was made to select an element that cannot be selected.''),
     (17, ''An error occurred while executing user supplied JavaScript.''),
     (19, ''An error occurred while searching for an element by XPath.''),
     (21, ''An operation did not complete before its timeout expired.''),
     (23, ''A request to switch to a different window could not be satisfied because the window could not be found.''),
     (24, ''An illegal attempt was made to set a cookie under a different domain than the current page.''),
     (25, ''A request to set a cookie'' @ [CHR 0x27] @ ''s value could not be satisfied.''),
     (26, ''A modal dialog was open, blocking this operation.''),
     (27, ''An attempt was made to operate on a modal dialog when one was not open.''),
     (28, ''A script did not complete before its timeout expired.''),
     (29, ''The coordinates provided to an interactions operation are invalid.''),
     (30, ''IME was not available.''),
     (31, ''An IME engine could not be started.''),
     (32, ''Argument was an invalid selector (e.g. XPath/CSS).''),
     (33, ''A new session could not be created.''),
     (34, ''Target provided for a move action is out of bounds.'')]"

subsection \<open>Decimal rendering (\<open>strconv.Itoa\<close>, \<open>%d\<close>)\<close>

definition digit :: "nat \<Rightarrow> char" where
  "digit n = ''0123456789'' ! n"

fun showNat :: "nat \<Rightarrow> string" where
  "showNat n = (if n < 10 then [digit n] else showNat (n div 10) @ [digit (n mod 10)])"

declare showNat.simps [simp del]

definition Itoa :: "int \<Rightarrow> string" where
  "Itoa i = (if i < 0 then CHR ''-'' # showNat (nat (- i)) else showNat (nat i))"

subsection \<open>\<open>CommandError.Error\<close>\<close>

definition Error :: "CommandError \<Rightarrow> string" where
  "Error e =
     (let m = ErrorType e;
          m = (if m \<noteq> [] then m @ '': '' else m)
      in if StatusCode e = - 1 then m @ ''status code not specified''
         else (case statusCodeStrings (StatusCode e) of
                 Some str \<Rightarrow> m @ str @ '': '' @ Message e
               | None \<Rightarrow> m @ ''unknown status code ('' @ Itoa (StatusCode e) @ ''): '' @ Message e))"

text \<open>The \<open>Error()\<close> method of any error value.\<close>

fun error_Error :: "error \<Rightarrow> string" where
  "error_Error (errors_New s) = s"
| "error_Error (CommandError_ptr e) = Error e"
| "error_Error (lib_error s) = s"

section \<open>The error classifier\<close>

record jsonResponse =
  RawSessionId :: string
  Status :: int
  RawValue :: string

text \<open>The switch of \<open>parseError\<close> that fills its local \<open>responseCodeError\<close>.\<close>

definition responseCodeError :: "int \<Rightarrow> string" where
  "responseCodeError c =
     (if c = 200 then []
      else if c = 400 then ''400: Missing Command Parameters''
      else if c = 404 then ''404: Unknown command/Resource Not Found''
      else if c = 405 then ''405: Invalid Command Method''
      else if c = 500 then ''500: Failed Command''
      else if c = 501 then ''501: Unimplemented Command''
      else ''Unknown error'')"

text \<open>
  \<open>parseError\<close> calls \<open>json.Unmarshal(jr.RawValue, commandError)\<close> on the struct it has
  just filled.  The decoder is a library function and is a parameter here: given the raw
  bytes and the struct before the call, it yields whether it reported an error and the
  struct after the call.  encoding/json writes every field of the target whose name a key
  of the object matches (exact or case-insensitive), so the struct after the call may
  differ from the one before in any field, \<open>StatusCode\<close> and \<open>ErrorType\<close> included.
\<close>

type_synonym unmarshal_CommandError = "string \<Rightarrow> CommandError \<Rightarrow> bool \<times> CommandError"

definition parseError :: "unmarshal_CommandError \<Rightarrow> int \<Rightarrow> jsonResponse \<Rightarrow> error" where
  "parseError unmarshal c jr =
     (if Status jr = 0 then
        CommandError_ptr \<lparr>StatusCode = - 1, ErrorType = responseCodeError c, Message = [],
                          Screen = [], Class = [], StackTrace = []\<rparr>
      else
        (let commandError = \<lparr>StatusCode = Status jr, ErrorType = responseCodeError c,
                              Message = [], Screen = [], Class = [], StackTrace = []\<rparr>;
             (err, commandError) = unmarshal (RawValue jr) commandError
         in if err then CommandError_ptr (commandError\<lparr>Message := RawValue jr\<rparr>)
            else CommandError_ptr commandError))"

section \<open>The protocol transport\<close>

text \<open>
  An HTTP request as \<open>newRequest\<close> builds it.  Header keys are kept as the source writes
  them (net/http canonicalises their case; the three keys used stay distinct).
\<close>

record request =
  Method :: string
  URL :: string
  Body :: string
  Header :: "string \<Rightarrow> string list option"

text \<open>
  What \<open>doInternal\<close> reads of an HTTP response: the status code, the result of
  \<open>response.Location()\<close> rendered by \<open>String()\<close>, and the result of
  \<open>ioutil.ReadAll(response.Body)\<close>.
\<close>

record response =
  StatusCode :: int
  Location :: "error + string"
  Body :: "error + string"

text \<open>
  The library calls of the transport are parameters.  \<open>json_Marshal\<close> is \<open>json.Marshal\<close>
  on a caller-supplied value; \<open>fmt_Sprintf\<close> formats the URL template;
  \<open>http_NewRequest\<close> is the error \<open>http.NewRequest\<close> reports for a method and URL, if
  any; \<open>client_Do\<close> is \<open>http.DefaultClient.Do\<close>, whose answer may depend on the requests
  sent before; \<open>json_Unmarshal\<close> is \<open>json.Unmarshal\<close> into a fresh \<open>jsonResponse\<close>: whether
  it reported an error, and the struct after the call (partly filled when the error is a
  type mismatch, untouched when the bytes are not JSON at all).
\<close>

record ('p, 'u) lib =
  json_Marshal :: "'p \<Rightarrow> error + string"
  fmt_Sprintf :: "string \<Rightarrow> 'u list \<Rightarrow> string"
  http_NewRequest :: "string \<Rightarrow> string \<Rightarrow> error option"
  client_Do :: "request list \<Rightarrow> request \<Rightarrow> error + response"
  json_Unmarshal :: "string \<Rightarrow> bool \<times> jsonResponse"
  json_Unmarshal_CommandError :: unmarshal_CommandError

definition isRedirect :: "response \<Rightarrow> bool" where
  "isRedirect response = (let r = StatusCode response in r = 302 \<or> r = 303)"

definition Header_Add :: "request \<Rightarrow> string \<Rightarrow> string \<Rightarrow> request" where
  "Header_Add r k v =
     r\<lparr>Header := (Header r)(k \<mapsto> (case Header r k of None \<Rightarrow> [] | Some vs \<Rightarrow> vs) @ [v])\<rparr>"

definition Header_Set :: "request \<Rightarrow> string \<Rightarrow> string \<Rightarrow> request" where
  "Header_Set r k v = r\<lparr>Header := (Header r)(k \<mapsto> [v])\<rparr>"

definition newRequest :: "('p, 'u) lib \<Rightarrow> string \<Rightarrow> string \<Rightarrow> string \<Rightarrow> error + request" where
  "newRequest L method u data =
     (case http_NewRequest L method u of
        Some err \<Rightarrow> Inl err
      | None \<Rightarrow>
          (let request = \<lparr>Method = method, URL = u, Body = data, Header = Map.empty\<rparr>;
               request = (if method = ''POST''
                          then Header_Add request ''Content-Type'' ''application/json;charset=utf-8''
                          else request);
               request = Header_Set request ''Accept'' ''application/json'';
               request = Header_Set request ''Accept-charset'' ''utf-8''
           in Inr request))"

text \<open>\<open>bytes.Trim(s, cutset)\<close>: drop leading and trailing bytes that occur in the cutset.\<close>

definition bytes_Trim :: "string \<Rightarrow> string \<Rightarrow> string" where
  "bytes_Trim s cutset =
     rev (dropWhile (\<lambda>c. c \<in> set cutset) (rev (dropWhile (\<lambda>c. c \<in> set cutset) s)))"

text \<open>
  The second half of \<open>doInternal\<close>, from \<open>ioutil.ReadAll\<close> to the end: what is made of a
  response that is not a redirect to follow.
\<close>

definition doInternal_response :: "('p, 'u) lib \<Rightarrow> response \<Rightarrow> error + string \<times> string" where
  \<open>doInternal_response L response =
     (case response.Body response of
        Inl err \<Rightarrow> Inl err
      | Inr buf \<Rightarrow>
          (let (err, jr) = json_Unmarshal L buf
           in if err \<and> StatusCode response = 200 then
                Inl (errors_New ''error: response must be a JSON object'')
              else if StatusCode response \<ge> 400 \<or> Status jr \<noteq> 0 then
                Inl (parseError (json_Unmarshal_CommandError L) (StatusCode response) jr)
              else Inr (bytes_Trim (RawSessionId jr) ''{}"'', RawValue jr)))\<close>

text \<open>
  \<open>doInternal\<close> threads the list of requests handed to the HTTP client so far and returns
  it extended.  A nil \<open>params\<close> is \<open>None\<close>; the empty map put in its place marshals to
  \<open>{}\<close>.  The \<open>debugprint\<close> calls only print and are left out.
\<close>

function doInternal ::
  "('p, 'u) lib \<Rightarrow> request list \<Rightarrow> 'p option \<Rightarrow> string \<Rightarrow> string
     \<Rightarrow> (error + string \<times> string) \<times> request list" where
  "doInternal L log params method u =
     (case (if method = ''POST''
            then (case params of None \<Rightarrow> Inr ''{}'' | Some p \<Rightarrow> json_Marshal L p)
            else Inr []) of
        Inl err \<Rightarrow> (Inl err, log)
      | Inr jsonParams \<Rightarrow>
          (case newRequest L method u jsonParams of
             Inl err \<Rightarrow> (Inl err, log)
           | Inr request \<Rightarrow>
               (case client_Do L log request of
                  Inl err \<Rightarrow> (Inl err, log @ [request])
                | Inr response \<Rightarrow>
                    if method = ''POST'' \<and> isRedirect response then
                      (case Location response of
                         Inl err \<Rightarrow> (Inl err, log @ [request])
                       | Inr loc \<Rightarrow> doInternal L (log @ [request]) None ''GET'' loc)
                    else (doInternal_response L response, log @ [request]))))"
  by pat_completeness auto
termination
  by (relation "measure (\<lambda>(L, log, params, method, u). if method = ''POST'' then 1 else 0)") auto

declare doInternal.simps [simp del]

record WebDriverCore =
  url :: string

definition do ::
  "('p, 'u) lib \<Rightarrow> WebDriverCore \<Rightarrow> request list \<Rightarrow> 'p option \<Rightarrow> string \<Rightarrow> string \<Rightarrow> 'u list
     \<Rightarrow> (error + string \<times> string) \<times> request list" where
  "do L w log params method urlFormat urlParams =
     (if method \<noteq> ''GET'' \<and> method \<noteq> ''POST'' \<and> method \<noteq> ''DELETE'' then
        (Inl (errors_New (''invalid method: '' @ method)), log)
      else doInternal L log params method (url w @ fmt_Sprintf L urlFormat urlParams))"

subsection \<open>A concrete library and servers for the examples\<close>

text \<open>
  The value \<open>jr := &jsonResponse{}\<close> before decoding.
\<close>

definition zero_jsonResponse :: jsonResponse where
  "zero_jsonResponse = \<lparr>RawSessionId = [], Status = 0, RawValue = []\<rparr>"

text \<open>The response bodies and payloads of the examples.\<close>

definition session_body :: string where
  \<open>session_body = ''{"sessionId":"abc","status":0,"value":{"browserName":"firefox"}}''\<close>

definition timeout_body :: string where
  \<open>timeout_body = ''{"sessionId":"abc","status":28,"value":{"message":"timed out"}}''\<close>

definition html_body :: string where
  \<open>html_body = ''<html>not json</html>''\<close>

definition forged_value :: string where
  \<open>forged_value = ''{"message":"boom","StatusCode":99,"ErrorType":"forged"}''\<close>

text \<open>
  encoding/json on the bodies the examples use: the two envelopes, decoded field by field;
  every other body the examples send (the empty body, the HTML page) is not JSON, for
  which \<open>json.Unmarshal\<close> reports a syntax error and leaves the struct as it was.
\<close>

definition example_Unmarshal :: "string \<Rightarrow> bool \<times> jsonResponse" where
  \<open>example_Unmarshal buf =
     (if buf = session_body then
        (False, \<lparr>RawSessionId = ''"abc"'', Status = 0, RawValue = ''{"browserName":"firefox"}''\<rparr>)
      else if buf = timeout_body then
        (False, \<lparr>RawSessionId = ''"abc"'', Status = 28, RawValue = ''{"message":"timed out"}''\<rparr>)
      else (True, zero_jsonResponse))\<close>

text \<open>
  encoding/json decoding a payload into a \<open>CommandError\<close>: a key sets the field of that
  name.  \<open>forged_value\<close> names the fields \<open>StatusCode\<close> and \<open>ErrorType\<close> next to
  \<open>message\<close>; any other payload of the examples is not JSON.
\<close>

definition example_Unmarshal_CommandError :: unmarshal_CommandError where
  \<open>example_Unmarshal_CommandError raw e =
     (if raw = ''{"message":"timed out"}'' then (False, e\<lparr>Message := ''timed out''\<rparr>)
      else if raw = forged_value then
        (False, e\<lparr>CommandError.StatusCode := 99, ErrorType := ''forged'', Message := ''boom''\<rparr>)
      else (True, e))\<close>

text \<open>
  The example library: caller values are given by their JSON text, URL templates carry no
  verbs (so \<open>Sprintf\<close> returns them), every URL is well formed, and the HTTP client is the
  given server.
\<close>

definition example_lib :: "(request list \<Rightarrow> request \<Rightarrow> error + response) \<Rightarrow> (string, string) lib" where
  "example_lib server =
     \<lparr>json_Marshal = (\<lambda>p. Inr p), fmt_Sprintf = (\<lambda>f args. f),
      http_NewRequest = (\<lambda>m u. None), client_Do = server,
      json_Unmarshal = example_Unmarshal,
      json_Unmarshal_CommandError = example_Unmarshal_CommandError\<rparr>"

definition no_Location :: "error + string" where
  "no_Location = Inl (lib_error ''http: no Location header in response'')"

text \<open>A server that answers the session-creation POST with a 303 and the GET with the session.\<close>

definition server_redirect :: "request list \<Rightarrow> request \<Rightarrow> error + response" where
  \<open>server_redirect log req =
     (if Method req = ''POST'' then
        Inr \<lparr>StatusCode = 303, Location = Inr ''http://host/session/abc'', Body = Inr []\<rparr>
      else
        Inr \<lparr>StatusCode = 200, Location = no_Location,
             Body = Inr session_body\<rparr>)\<close>

text \<open>A server that gives the same answer to every request.\<close>

definition server_const :: "int \<Rightarrow> string \<Rightarrow> request list \<Rightarrow> request \<Rightarrow> error + response" where
  "server_const status body log req =
     Inr \<lparr>StatusCode = status, Location = no_Location, Body = Inr body\<rparr>"

text \<open>The requests \<open>newRequest\<close> builds in the examples.\<close>

definition example_GET :: "string \<Rightarrow> request" where
  "example_GET u =
     \<lparr>Method = ''GET'', URL = u, Body = [],
      Header = [''Accept'' \<mapsto> [''application/json''], ''Accept-charset'' \<mapsto> [''utf-8'']]\<rparr>"

definition example_POST :: "string \<Rightarrow> string \<Rightarrow> request" where
  "example_POST u data =
     \<lparr>Method = ''POST'', URL = u, Body = data,
      Header = [''Content-Type'' \<mapsto> [''application/json;charset=utf-8''],
                ''Accept'' \<mapsto> [''application/json''], ''Accept-charset'' \<mapsto> [''utf-8'']]\<rparr>"

definition example_core :: WebDriverCore where
  "example_core = \<lparr>url = ''http://host''\<rparr>"

section \<open>The profile builder\<close>

text \<open>
  A preference value is an \<open>interface{}\<close>: the type switch of \<open>createTempProfile\<close> tells a
  \<open>bool\<close>, an \<open>int\<close> and a \<open>string\<close> apart from every other dynamic type (of which the
  type's name is kept).  A preference map is given as the list of its entries in the order
  in which \<open>range\<close> visits them; Go leaves that order open, so a statement about the map
  is a statement about every such list.
\<close>

datatype pref = pref_bool bool | pref_int int | pref_string string | pref_other string

definition dquote :: char where
  "dquote = CHR 0x22"

definition newline :: char where
  "newline = CHR 0x0A"

definition cpferr :: string where
  "cpferr = ''create profile failed: ''"

definition weferr :: string where
  "weferr = ''write extension failed: ''"

text \<open>
  The loop of \<open>createTempProfile\<close> over the preferences: the result is the error it stops
  with, if any, and the text handed to \<open>fuser.WriteString\<close> up to that point (the results
  of the writes themselves are discarded by the source).
\<close>

fun write_prefs :: "(string \<times> pref) list \<Rightarrow> error option \<times> string" where
  "write_prefs [] = (None, [])"
| "write_prefs ((k, i) # rest) =
     (let head = ''user_pref('' @ [dquote] @ k @ [dquote] @ '', '' in
      case i of
        pref_bool x \<Rightarrow>
          (let (err, text) = write_prefs rest
           in (err, head @ (if x then ''true'' else ''false'') @ '');'' @ [newline] @ text))
      | pref_int x \<Rightarrow>
          (let (err, text) = write_prefs rest
           in (err, head @ Itoa x @ '');'' @ [newline] @ text))
      | pref_string x \<Rightarrow>
          (let (err, text) = write_prefs rest
           in (err, head @ [dquote] @ x @ [dquote] @ '');'' @ [newline] @ text))
      | pref_other t \<Rightarrow>
          (Some (errors_New (cpferr @ ''unexpected preference type: '' @ k)), head))"

text \<open>
  The file system and the archive are parameters: each call's outcome is given by the
  environment.  \<open>filepath.Join\<close> is modelled without path cleaning; an empty second
  element is dropped, as the library does.
\<close>

record zip_File =
  Name :: string
  f_Open :: "error option"
  f_ReadAll :: "error + string"
  IsDir :: bool

record fs_env =
  TempDir :: "error + string"
  Mkdir :: "string \<Rightarrow> error option"
  zip_OpenReader :: "string \<Rightarrow> error + zip_File list"
  xml_Unmarshal :: "string \<Rightarrow> error + string"
  OpenFile :: "string \<Rightarrow> error option"
  io_Copy :: "string \<Rightarrow> error option"

definition filepath_Join :: "string \<Rightarrow> string \<Rightarrow> string" where
  "filepath_Join a b = (if b = [] then a else a @ ''/'' @ b)"

definition cpf :: "error \<Rightarrow> error" where
  "cpf err = errors_New (cpferr @ error_Error err)"

text \<open>The first loop over the archive: the extension id from \<open>install.rdf\<close>, empty if there is none.\<close>

fun find_extName :: "fs_env \<Rightarrow> zip_File list \<Rightarrow> error + string" where
  "find_extName E [] = Inr []"
| "find_extName E (f # fs) =
     (if Name f = ''install.rdf'' then
        (case f_Open f of
           Some err \<Rightarrow> Inl (cpf err)
         | None \<Rightarrow>
             (case f_ReadAll f of
                Inl err \<Rightarrow> Inl (cpf err)
              | Inr buf \<Rightarrow>
                  (case xml_Unmarshal E buf of
                     Inl err \<Rightarrow> Inl (cpf err)
                   | Inr ident \<Rightarrow>
                       if ident = [] then
                         Inl (errors_New (cpferr @ ''unable to find extension Id from install.rdf''))
                       else Inr ident)))
      else find_extName E fs)"

definition writeExtensionFile :: "fs_env \<Rightarrow> zip_File \<Rightarrow> string \<Rightarrow> error option" where
  "writeExtensionFile E f extPath =
     (case f_Open f of
        Some err \<Rightarrow> Some (errors_New (weferr @ error_Error err))
      | None \<Rightarrow>
          (let filename = filepath_Join extPath (Name f) in
           if IsDir f then Mkdir E filename
           else (case OpenFile E filename of
                   Some err \<Rightarrow> Some (errors_New (weferr @ error_Error err))
                 | None \<Rightarrow>
                     (case io_Copy E filename of
                        Some err \<Rightarrow> Some (errors_New (weferr @ error_Error err))
                      | None \<Rightarrow> None))))"

text \<open>The second loop over the archive.\<close>

fun writeExtensionFiles :: "fs_env \<Rightarrow> zip_File list \<Rightarrow> string \<Rightarrow> error option" where
  "writeExtensionFiles E [] extPath = None"
| "writeExtensionFiles E (f # fs) extPath =
     (case writeExtensionFile E f extPath of
        Some err \<Rightarrow> Some err
      | None \<Rightarrow> writeExtensionFiles E fs extPath)"

text \<open>
  \<open>createTempProfile\<close> up to and including the opening of \<open>user.js\<close>: the profile path,
  or the error the function returns at that point.
\<close>

definition createTempProfile_dir :: "fs_env \<Rightarrow> string \<Rightarrow> error + string" where
  "createTempProfile_dir E xpi =
     (case TempDir E of
        Inl err \<Rightarrow> Inl (cpf err)
      | Inr profilePath \<Rightarrow>
          (let extsPath = filepath_Join profilePath ''extensions'' in
           case Mkdir E extsPath of
             Some err \<Rightarrow> Inl (cpf err)
           | None \<Rightarrow>
               (case zip_OpenReader E xpi of
                  Inl err \<Rightarrow> Inl (cpf err)
                | Inr files \<Rightarrow>
                    (case find_extName E files of
                       Inl err \<Rightarrow> Inl err
                     | Inr extName \<Rightarrow>
                         (let extPath = filepath_Join extsPath extName in
                          case Mkdir E extPath of
                            Some err \<Rightarrow> Inl (cpf err)
                          | None \<Rightarrow>
                              (case writeExtensionFiles E files extPath of
                                 Some err \<Rightarrow> Inl err
                               | None \<Rightarrow>
                                   (let fuserName = filepath_Join profilePath ''user.js'' in
                                    case OpenFile E fuserName of
                                      Some err \<Rightarrow> Inl (cpf err)
                                    | None \<Rightarrow> Inr profilePath)))))))"

text \<open>
  \<open>createTempProfile\<close> returns the profile path or an error; the second component is the
  text written to \<open>user.js\<close> (empty when the file was never opened).
\<close>

definition createTempProfile ::
  "fs_env \<Rightarrow> string \<Rightarrow> (string \<times> pref) list \<Rightarrow> (error + string) \<times> string" where
  "createTempProfile E xpi prefs =
     (case createTempProfile_dir E xpi of
        Inl err \<Rightarrow> (Inl err, [])
      | Inr profilePath \<Rightarrow>
          (case write_prefs prefs of
             (Some err, text) \<Rightarrow> (Inl err, text)
           | (None, text) \<Rightarrow> (Inr profilePath, text)))"

text \<open>
  The statement the loop writes for an entry of a supported type: a boolean as \<open>true\<close> or
  \<open>false\<close>, an integer in decimal, a string between double quotes, nothing escaped.
\<close>

definition render_value :: "pref \<Rightarrow> string" where
  "render_value v =
     (case v of
        pref_bool x \<Rightarrow> (if x then ''true'' else ''false'')
      | pref_int x \<Rightarrow> Itoa x
      | pref_string x \<Rightarrow> [dquote] @ x @ [dquote]
      | pref_other t \<Rightarrow> [])"

definition pref_statement :: "string \<times> pref \<Rightarrow> string" where
  "pref_statement e =
     ''user_pref('' @ [dquote] @ fst e @ [dquote] @ '', '' @ render_value (snd e) @ '');'' @ [newline]"

subsection \<open>Reading a preferences file back\<close>

text \<open>
  The reader of the statements \<open>user_pref("key", value);\<close> that the round-trip property
  speaks of.  It follows the specification's description of the file, not the source (the
  source has no reader): a key between double quotes, then a value that is \<open>true\<close>,
  \<open>false\<close>, a decimal integer, or a string between double quotes, one statement per line.
\<close>

fun match_prefix :: "string \<Rightarrow> string \<Rightarrow> string option" where
  "match_prefix [] s = Some s"
| "match_prefix (p # ps) [] = None"
| "match_prefix (p # ps) (c # cs) = (if p = c then match_prefix ps cs else None)"

definition digit_val :: "char \<Rightarrow> nat option" where
  "digit_val c = map_of (zip ''0123456789'' [0, 1, 2, 3, 4, 5, 6, 7, 8, 9]) c"

fun read_digits :: "nat \<Rightarrow> string \<Rightarrow> nat option" where
  "read_digits acc [] = Some acc"
| "read_digits acc (c # cs) =
     (case digit_val c of None \<Rightarrow> None | Some d \<Rightarrow> read_digits (10 * acc + d) cs)"

definition Atoi :: "string \<Rightarrow> int option" where
  "Atoi s =
     (case s of
        [] \<Rightarrow> None
      | c # cs \<Rightarrow>
          if c = CHR ''-'' then
            (if cs = [] then None else map_option (\<lambda>n. - int n) (read_digits 0 cs))
          else map_option int (read_digits 0 s))"

definition read_value :: "string \<Rightarrow> (pref \<times> string) option" where
  "read_value s =
     (case s of
        [] \<Rightarrow> None
      | c # cs \<Rightarrow>
          if c = dquote then
            (case dropWhile (\<lambda>x. x \<noteq> dquote) cs of
               [] \<Rightarrow> None
             | q # rest \<Rightarrow> Some (pref_string (takeWhile (\<lambda>x. x \<noteq> dquote) cs), rest))
          else
            (let tok = takeWhile (\<lambda>x. x \<noteq> CHR '')'') s;
                 rest = dropWhile (\<lambda>x. x \<noteq> CHR '')'') s
             in if tok = ''true'' then Some (pref_bool True, rest)
                else if tok = ''false'' then Some (pref_bool False, rest)
                else map_option (\<lambda>i. (pref_int i, rest)) (Atoi tok)))"

definition read_statement :: "string \<Rightarrow> ((string \<times> pref) \<times> string) option" where
  "read_statement s =
     (case match_prefix (''user_pref('' @ [dquote]) s of
        None \<Rightarrow> None
      | Some s1 \<Rightarrow>
          (case match_prefix ([dquote] @ '', '') (dropWhile (\<lambda>x. x \<noteq> dquote) s1) of
             None \<Rightarrow> None
           | Some s2 \<Rightarrow>
               (case read_value s2 of
                  None \<Rightarrow> None
                | Some (v, s3) \<Rightarrow>
                    (case match_prefix ('');'' @ [newline]) s3 of
                       None \<Rightarrow> None
                     | Some s4 \<Rightarrow> Some ((takeWhile (\<lambda>x. x \<noteq> dquote) s1, v), s4)))))"

text \<open>Statement after statement until the text ends; the fuel bounds the number of statements.\<close>

fun read_statements :: "nat \<Rightarrow> string \<Rightarrow> (string \<times> pref) list option" where
  "read_statements n [] = Some []"
| "read_statements 0 (c # cs) = None"
| "read_statements (Suc n) (c # cs) =
     (case read_statement (c # cs) of
        None \<Rightarrow> None
      | Some (e, rest) \<Rightarrow> map_option ((#) e) (read_statements n rest))"

definition read_user_js :: "string \<Rightarrow> (string \<times> pref) list option" where
  "read_user_js s = read_statements (length s) s"

text \<open>An entry the writer supports and the reader can tell apart: what the amended C5 asks.\<close>

definition supported :: "pref \<Rightarrow> bool" where
  "supported v = (case v of pref_other t \<Rightarrow> False | _ \<Rightarrow> True)"

definition quote_free :: "string \<times> pref \<Rightarrow> bool" where
  "quote_free e =
     (dquote \<notin> set (fst e) \<and>
      (case snd e of pref_string x \<Rightarrow> dquote \<notin> set x | pref_other t \<Rightarrow> False | _ \<Rightarrow> True))"

text \<open>
  Two preference maps for the examples: one entry whose string value holds a double quote
  and a line break, and two plain entries.
\<close>

definition prefs_one :: "(string \<times> pref) list" where
  \<open>prefs_one = [(''a'', pref_string (''x");'' @ [newline] @ ''user_pref("b", "y''))]\<close>

definition prefs_two :: "(string \<times> pref) list" where
  "prefs_two = [(''a'', pref_string ''x''), (''b'', pref_string ''y'')]"

definition prefs_plain :: "(string \<times> pref) list" where
  "prefs_plain =
     [(''browser.cache.disk.enable'', pref_bool False),
      (''webdriver_firefox_port'', pref_int 7055),
      (''network.proxy.type'', pref_int (- 1)),
      (''browser.startup.homepage'', pref_string ''about:blank'')]"

text \<open>An environment in which every file-system call succeeds.\<close>

definition example_fs :: fs_env where
  "example_fs =
     \<lparr>TempDir = Inr ''/tmp/webdriver1'', Mkdir = (\<lambda>p. None),
      zip_OpenReader = (\<lambda>p. Inr [\<lparr>Name = ''install.rdf'', f_Open = None,
                                   f_ReadAll = Inr ''<RDF/>'', IsDir = False\<rparr>]),
      xml_Unmarshal = (\<lambda>buf. Inr ''fxdriver@googlecode.com''),
      OpenFile = (\<lambda>p. None), io_Copy = (\<lambda>p. None)\<rparr>"

section \<open>The process supervisor\<close>

text \<open>
  A call either returns, panics, or is still inside one of its retry loops when the
  observed run of the environment ends (\<open>Running\<close>).  Durations are nanoseconds.
\<close>

datatype 'a outcome = Return 'a | Panic string | Running

text \<open>An \<open>exec.Cmd\<close>: \<open>Process\<close> is nil until \<open>Start\<close> has launched the child.\<close>

record Cmd =
  Path :: string
  Args :: "string list"
  Process :: "nat option"

text \<open>
  What the operating system answers during one call of \<open>Start\<close>.  \<open>lock_attempts\<close> lists,
  for each round of the lock loop, whether \<open>net.Listen\<close> on the lock port succeeded and
  what \<open>time.Since(now)\<close> read after a failure; \<open>probe_attempts\<close> does the same for
  \<open>probePort\<close> (whether \<open>net.Dial\<close> succeeded, the result of closing the connection, the
  time read).  \<open>scan_Listen\<close> and \<open>scan_Close\<close> answer the port scan, \<open>files\<close> the profile
  construction; the remaining fields are the results of the log-path check, of the two
  pipes, of \<open>cmd.Start()\<close> (an error, or the child's pid) and of opening the log file.
\<close>

record os_env =
  lock_attempts :: "(bool \<times> int) list"
  scan_Listen :: "int \<Rightarrow> bool"
  scan_Close :: "int \<Rightarrow> error option"
  files :: fs_env
  OpenFile_LogPath :: "error option"
  StdoutPipe :: "error option"
  StderrPipe :: "error option"
  cmd_Start :: "error + nat"
  OpenFile_LogFile :: "error option"
  probe_attempts :: "(bool \<times> error option \<times> int) list"

fun probePort :: "(bool \<times> error option \<times> int) list \<Rightarrow> int \<Rightarrow> int \<Rightarrow> error option outcome" where
  "probePort [] port timeout = Running"
| "probePort ((dialed, closed, since) # rest) port timeout =
     (if dialed then
        (case closed of Some err \<Rightarrow> Return (Some err) | None \<Rightarrow> Return None)
      else if since > timeout then Return (Some (errors_New ''start failed: timeout expired''))
      else probePort rest port timeout)"

text \<open>
  \<open>runBrowser\<close> (the four-argument version under src; the \<open>go io.Copy\<close> calls run on
  their own and change nothing that is returned).
\<close>

definition runBrowser ::
  "os_env \<Rightarrow> string \<Rightarrow> string list \<Rightarrow> (string \<times> string) list \<Rightarrow> string
     \<Rightarrow> error + Cmd \<times> string option" where
  "runBrowser env exePath switches vars logFilePath =
     (let cmd = \<lparr>Path = exePath, Args = switches, Process = None\<rparr> in
      case StdoutPipe env of
        Some err \<Rightarrow> Inl err
      | None \<Rightarrow>
          (case StderrPipe env of
             Some err \<Rightarrow> Inl err
           | None \<Rightarrow>
               (case cmd_Start env of
                  Inl err \<Rightarrow> Inl err
                | Inr pid \<Rightarrow>
                    (let cmd = cmd\<lparr>Process := Some pid\<rparr> in
                     if logFilePath \<noteq> [] then
                       (case OpenFile_LogFile env of
                          Some err \<Rightarrow> Inl err
                        | None \<Rightarrow> Inr (cmd, Some logFilePath))
                     else Inr (cmd, None)))))"

subsection \<open>The standalone driver\<close>

record ChromeDriver = WebDriverCore +
  Port :: int
  BaseUrl :: string
  Threads :: int
  LogPath :: string
  LogFile :: string
  StartTimeout :: int
  path :: string
  cmd :: "Cmd option"
  logFile :: "string option"

text \<open>
  \<open>NewChromeDriver\<close>; the port is 9515 in the later version of the file and
  \<open>freeport.GetPort()\<close> in the earlier one, so it is an argument here.
\<close>

definition NewChromeDriver :: "int \<Rightarrow> string \<Rightarrow> ChromeDriver" where
  "NewChromeDriver port p =
     \<lparr>url = [], Port = port, BaseUrl = [], Threads = 4, LogPath = ''chromedriver.log'',
      LogFile = [], StartTimeout = 20 * 1000000000, path = p, cmd = None, logFile = None\<rparr>"

definition csferr :: string where
  "csferr = ''chromedriver start failed: ''"

definition chrome_switches :: "ChromeDriver \<Rightarrow> string list" where
  "chrome_switches d =
     [''-port='' @ Itoa (Port d), ''-log-path='' @ LogPath d,
      ''-http-threads='' @ Itoa (Threads d)] @
     (if BaseUrl d \<noteq> [] then [''-url-base='' @ BaseUrl d] else [])"

text \<open>
  \<open>ChromeDriver.Start\<close>, later version (it launches through \<open>runBrowser\<close>, called with no
  extra environment):  \<open>d.cmd, d.logFile, err = runBrowser(...)\<close> stores nil in both fields
  when the launch fails.
\<close>

definition ChromeDriver_Start :: "os_env \<Rightarrow> ChromeDriver \<Rightarrow> error option outcome \<times> ChromeDriver" where
  "ChromeDriver_Start env d =
     (if cmd d \<noteq> None then
        (Return (Some (errors_New (csferr @ ''chromedriver already running''))), d)
      else
        (case (if LogPath d \<noteq> [] then OpenFile_LogPath env else None) of
           Some err \<Rightarrow>
             (Return (Some (errors_New (csferr @ ''unable to write in log path: '' @ error_Error err))), d)
         | None \<Rightarrow>
             (let d = d\<lparr>url := ''http://127.0.0.1:'' @ Itoa (Port d) @ BaseUrl d\<rparr>;
                  switches = chrome_switches d
              in case runBrowser env (path d) switches [] (LogFile d) of
                   Inl err \<Rightarrow>
                     (Return (Some (errors_New (csferr @ error_Error err))),
                      d\<lparr>cmd := None, logFile := None\<rparr>)
                 | Inr (c, lf) \<Rightarrow>
                     (let d = d\<lparr>cmd := Some c, logFile := lf\<rparr>
                      in (probePort (probe_attempts env) (Port d) (StartTimeout d), d)))))"

text \<open>
  \<open>ChromeDriver.Start\<close>, earlier version (the one that takes its port from freeport): it
  stores \<open>exec.Command(...)\<close> in \<open>d.cmd\<close> and launches afterwards.
\<close>

definition ChromeDriver_Start_freeport ::
  "os_env \<Rightarrow> ChromeDriver \<Rightarrow> error option outcome \<times> ChromeDriver" where
  "ChromeDriver_Start_freeport env d =
     (if cmd d \<noteq> None then
        (Return (Some (errors_New (csferr @ ''chromedriver already running''))), d)
      else
        (case (if LogPath d \<noteq> [] then OpenFile_LogPath env else None) of
           Some err \<Rightarrow>
             (Return (Some (errors_New (csferr @ ''unable to write in log path: '' @ error_Error err))), d)
         | None \<Rightarrow>
             (let d = d\<lparr>url := ''http://127.0.0.1:'' @ Itoa (Port d) @ BaseUrl d\<rparr>;
                  switches = chrome_switches d;
                  d = d\<lparr>cmd := Some \<lparr>Path = path d, Args = switches, Process = None\<rparr>\<rparr>
              in case StdoutPipe env of
                   Some err \<Rightarrow> (Return (Some (errors_New (csferr @ error_Error err))), d)
                 | None \<Rightarrow>
                     (case StderrPipe env of
                        Some err \<Rightarrow> (Return (Some (errors_New (csferr @ error_Error err))), d)
                      | None \<Rightarrow>
                          (case cmd_Start env of
                             Inl err \<Rightarrow> (Return (Some (errors_New (csferr @ error_Error err))), d)
                           | Inr pid \<Rightarrow>
                               (let d = d\<lparr>cmd := Some \<lparr>Path = path d, Args = switches,
                                                        Process = Some pid\<rparr>\<rparr>
                                in if LogFile d \<noteq> [] then
                                     (case OpenFile_LogFile env of
                                        Some err \<Rightarrow> (Return (Some err), d\<lparr>logFile := None\<rparr>)
                                      | None \<Rightarrow>
                                          (let d = d\<lparr>logFile := Some (LogFile d)\<rparr>
                                           in (probePort (probe_attempts env) (Port d)
                                                 (StartTimeout d), d)))
                                   else (probePort (probe_attempts env) (Port d)
                                           (StartTimeout d), d)))))))"

text \<open>
  \<open>ChromeDriver.Stop\<close> (the same in both versions).  \<open>d.cmd.Process.Signal\<close> is a call
  through the \<open>Process\<close> pointer, nil when the child was never launched; the deferred
  function clears \<open>d.cmd\<close> also then.  The results of signalling and of closing the log
  are discarded by the source.
\<close>

definition ChromeDriver_Stop :: "ChromeDriver \<Rightarrow> error option outcome \<times> ChromeDriver" where
  "ChromeDriver_Stop d =
     (case cmd d of
        None \<Rightarrow> (Return (Some (errors_New ''stop failed: chromedriver not running'')), d)
      | Some c \<Rightarrow>
          (case Process c of
             None \<Rightarrow> (Panic ''invalid memory address or nil pointer dereference'', d\<lparr>cmd := None\<rparr>)
           | Some pid \<Rightarrow> (Return None, d\<lparr>cmd := None\<rparr>)))"

subsection \<open>The browser-extension driver\<close>

record FirefoxDriver = WebDriverCore +
  Port :: int
  LockPortTimeout :: int
  StartTimeout :: int
  LogFile :: string
  Prefs :: "(string \<times> pref) list"
  DeleteProfileOnClose :: bool
  firefoxPath :: string
  xpiPath :: string
  profilePath :: string
  cmd :: "Cmd option"
  logFile :: "string option"

text \<open>\<open>NewFirefoxDriver\<close>; the table of \<open>GetDefaultPrefs\<close> is an argument.\<close>

definition NewFirefoxDriver :: "(string \<times> pref) list \<Rightarrow> string \<Rightarrow> string \<Rightarrow> FirefoxDriver" where
  "NewFirefoxDriver defaults fp xp =
     \<lparr>url = [], Port = 0, LockPortTimeout = 60 * 1000000000, StartTimeout = 20 * 1000000000,
      LogFile = [], Prefs = defaults, DeleteProfileOnClose = True, firefoxPath = fp,
      xpiPath = xp, profilePath = [], cmd = None, logFile = None\<rparr>"

text \<open>The loop that takes the lock port (the listener is closed when \<open>Start\<close> returns).\<close>

fun lockPort :: "(bool \<times> int) list \<Rightarrow> int \<Rightarrow> error option outcome" where
  "lockPort [] timeout = Running"
| "lockPort ((listening, since) # rest) timeout =
     (if listening then Return None
      else if since > timeout then
        Return (Some (errors_New ''timeout expired trying to lock mutex port''))
      else lockPort rest timeout)"

text \<open>
  The scan \<open>for i := d.Port; i < 65535; i++\<close>: the error of closing the test listener,
  the first port on which one opened, or nothing when the loop runs out (the source then
  goes on with \<open>d.Port\<close> unchanged).
\<close>

function findPort :: "os_env \<Rightarrow> int \<Rightarrow> error + int option" where
  "findPort env i =
     (if i < 65535 then
        (if scan_Listen env i then
           (case scan_Close env i of Some err \<Rightarrow> Inl err | None \<Rightarrow> Inr (Some i))
         else findPort env (i + 1))
      else Inr None)"
  by pat_completeness auto
termination
  by (relation "measure (\<lambda>(env, i). nat (65535 - i))") auto

declare findPort.simps [simp del]

text \<open>
  \<open>FirefoxDriver.Start\<close>, first part (the \<open>if d.Port == 0\<close> block): \<open>Return None\<close> stands
  for falling through to the rest of \<open>Start\<close>.
\<close>

definition FirefoxDriver_Start_port ::
  "os_env \<Rightarrow> FirefoxDriver \<Rightarrow> error option outcome \<times> FirefoxDriver" where
  "FirefoxDriver_Start_port env d =
     (if Port d = 0 then
        (let d = d\<lparr>Port := 7055\<rparr> in
         case lockPort (lock_attempts env) (LockPortTimeout d) of
           Return None \<Rightarrow>
             (case findPort env (Port d) of
                Inl err \<Rightarrow> (Return (Some err), d)
              | Inr None \<Rightarrow> (Return None, d)
              | Inr (Some i) \<Rightarrow> (Return None, d\<lparr>Port := i\<rparr>))
         | r \<Rightarrow> (r, d))
      else (Return None, d))"

text \<open>
  \<open>FirefoxDriver.Start\<close>, second part: the profile, the command, the launch, the log and
  the probe.  \<open>d.cmd\<close> is assigned before \<open>d.cmd.Start()\<close> is called; the errors of the
  two pipes are printed and otherwise ignored.
\<close>

definition FirefoxDriver_Start_launch ::
  "os_env \<Rightarrow> FirefoxDriver \<Rightarrow> error option outcome \<times> FirefoxDriver" where
  "FirefoxDriver_Start_launch env d =
     (let d = d\<lparr>Prefs := AList.update ''webdriver_firefox_port'' (pref_int (Port d)) (Prefs d)\<rparr>
      in case fst (createTempProfile (files env) (xpiPath d) (Prefs d)) of
           Inl err \<Rightarrow> (Return (Some err), d\<lparr>profilePath := []\<rparr>)
         | Inr pp \<Rightarrow>
             (let d = d\<lparr>profilePath := pp\<rparr>;
                  c = \<lparr>Path = firefoxPath d, Args = [''-no-remote'', ''-profile'', profilePath d],
                       Process = None\<rparr>;
                  d = d\<lparr>cmd := Some c\<rparr>
              in case cmd_Start env of
                   Inl err \<Rightarrow>
                     (Return (Some (errors_New (''unable to start firefox: '' @ error_Error err))), d)
                 | Inr pid \<Rightarrow>
                     (let d = d\<lparr>cmd := Some (c\<lparr>Process := Some pid\<rparr>)\<rparr> in
                      case (if LogFile d \<noteq> [] then
                              (case OpenFile_LogFile env of
                                 Some err \<Rightarrow> Inl (err, d\<lparr>logFile := None\<rparr>)
                               | None \<Rightarrow> Inr (d\<lparr>logFile := Some (LogFile d)\<rparr>))
                            else Inr d) of
                        Inl (err, d) \<Rightarrow> (Return (Some err), d)
                      | Inr d \<Rightarrow>
                          (case probePort (probe_attempts env) (Port d) (StartTimeout d) of
                             Return None \<Rightarrow>
                               (Return None, d\<lparr>url := ''http://127.0.0.1:'' @ Itoa (Port d) @ ''/hub''\<rparr>)
                           | r \<Rightarrow> (r, d)))))"

definition FirefoxDriver_Start ::
  "os_env \<Rightarrow> FirefoxDriver \<Rightarrow> error option outcome \<times> FirefoxDriver" where
  "FirefoxDriver_Start env d =
     (case FirefoxDriver_Start_port env d of
        (Return None, d) \<Rightarrow> FirefoxDriver_Start_launch env d
      | (r, d) \<Rightarrow> (r, d))"

definition FirefoxDriver_Stop :: "FirefoxDriver \<Rightarrow> error option outcome \<times> FirefoxDriver" where
  "FirefoxDriver_Stop d =
     (case cmd d of
        None \<Rightarrow> (Return (Some (errors_New ''stop failed: firefoxdriver not running'')), d)
      | Some c \<Rightarrow>
          (case Process c of
             None \<Rightarrow> (Panic ''invalid memory address or nil pointer dereference'', d\<lparr>cmd := None\<rparr>)
           | Some pid \<Rightarrow> (Return None, d\<lparr>cmd := None\<rparr>)))"

text \<open>
  What \<open>FirefoxDriver.Stop\<close> asks of the operating system when the child runs, in order;
  the source discards every result.
\<close>

datatype os_call = Signal_Interrupt nat | Close_log string | RemoveAll string

definition FirefoxDriver_Stop_calls :: "FirefoxDriver \<Rightarrow> os_call list" where
  "FirefoxDriver_Stop_calls d =
     (case cmd d of
        None \<Rightarrow> []
      | Some c \<Rightarrow>
          (case Process c of
             None \<Rightarrow> []
           | Some pid \<Rightarrow>
               [Signal_Interrupt pid] @
               (case logFile d of None \<Rightarrow> [] | Some f \<Rightarrow> [Close_log f]) @
               (if DeleteProfileOnClose d then [RemoveAll (profilePath d)] else [])))"

subsection \<open>Environments and drivers for the examples\<close>

text \<open>
  The lock port is taken at the second attempt, ports 7055 and 7056 are busy, the child
  starts with pid 4242 and answers the second probe.
\<close>

definition example_os :: os_env where
  "example_os =
     \<lparr>lock_attempts = [(False, 0), (True, 1000000000)],
      scan_Listen = (\<lambda>i. 7057 \<le> i), scan_Close = (\<lambda>i. None), files = example_fs,
      OpenFile_LogPath = None, StdoutPipe = None, StderrPipe = None, cmd_Start = Inr 4242,
      OpenFile_LogFile = None,
      probe_attempts = [(False, None, 0), (True, None, 1000000000)]\<rparr>"

text \<open>The same, but the binary cannot be launched.\<close>

definition example_os_no_binary :: os_env where
  "example_os_no_binary =
     example_os\<lparr>cmd_Start := Inl (lib_error ''fork/exec: no such file or directory'')\<rparr>"

definition example_firefox :: FirefoxDriver where
  "example_firefox = NewFirefoxDriver prefs_plain ''/usr/bin/firefox'' ''webdriver.xpi''"

definition example_chrome :: ChromeDriver where
  "example_chrome = NewChromeDriver 9515 ''/usr/bin/chromedriver''"

text \<open>A second call of \<open>Start\<close> meets the same answers, and its child gets pid 4243.\<close>

definition example_os_again :: os_env where
  "example_os_again = example_os\<lparr>cmd_Start := Inr 4243\<rparr>"

text \<open>The same as \<open>example_os\<close>, but a test listener opens on no port at all.\<close>

definition example_os_busy :: os_env where
  "example_os_busy = example_os\<lparr>scan_Listen := (\<lambda>i. False)\<rparr>"

text \<open>
  The Firefox driver after a first \<open>Start\<close> in \<open>example_os\<close>, after a second one in
  \<open>example_os_again\<close>, and after a \<open>Start\<close> in \<open>example_os_no_binary\<close>.
\<close>

definition started_firefox :: FirefoxDriver where
  "started_firefox =
     example_firefox\<lparr>url := ''http://127.0.0.1:7057/hub'', Port := 7057,
       Prefs := AList.update ''webdriver_firefox_port'' (pref_int 7057) prefs_plain,
       profilePath := ''/tmp/webdriver1'',
       cmd := Some \<lparr>Path = ''/usr/bin/firefox'',
                     Args = [''-no-remote'', ''-profile'', ''/tmp/webdriver1''],
                     Process = Some 4242\<rparr>\<rparr>"

definition restarted_firefox :: FirefoxDriver where
  "restarted_firefox =
     started_firefox\<lparr>cmd := Some \<lparr>Path = ''/usr/bin/firefox'',
                                     Args = [''-no-remote'', ''-profile'', ''/tmp/webdriver1''],
                                     Process = Some 4243\<rparr>\<rparr>"

definition failed_firefox :: FirefoxDriver where
  "failed_firefox =
     example_firefox\<lparr>Port := 7057,
       Prefs := AList.update ''webdriver_firefox_port'' (pref_int 7057) prefs_plain,
       profilePath := ''/tmp/webdriver1'',
       cmd := Some \<lparr>Path = ''/usr/bin/firefox'',
                     Args = [''-no-remote'', ''-profile'', ''/tmp/webdriver1''],
                     Process = None\<rparr>\<rparr>"

text \<open>The Chrome driver (earlier version of \<open>Start\<close>) after a \<open>Start\<close> in \<open>example_os_no_binary\<close>.\<close>

definition failed_chrome :: ChromeDriver where
  "failed_chrome =
     example_chrome\<lparr>url := ''http://127.0.0.1:9515'',
       ChromeDriver.cmd := Some \<lparr>Path = ''/usr/bin/chromedriver'',
                     Args = [''-port=9515'', ''-log-path=chromedriver.log'', ''-http-threads=4''],
                     Process = None\<rparr>\<rparr>"

section \<open>Unfolding the examples\<close>

lemmas example_defs = example_core_def example_lib_def newRequest_def server_redirect_def
  server_const_def Header_Add_def Header_Set_def isRedirect_def doInternal_response_def
  example_Unmarshal_def example_Unmarshal_CommandError_def bytes_Trim_def zero_jsonResponse_def
  no_Location_def parseError_def responseCodeError_def
  session_body_def timeout_body_def html_body_def forged_value_def example_GET_def example_POST_def

section \<open>Theorems: rendering a classified error\<close>

lemma statusCodeStrings_28:
  "statusCodeStrings 28 = Some ''A script did not complete before its timeout expired.''"
  by (simp add: statusCodeStrings_def)

text \<open>
  C7.  Rendering an error whose numeric status code is 28 yields a message that contains
  "A script did not complete before its timeout expired."; rendering one whose code is
  not in the lookup table and is not -1 yields a message that contains
  "unknown status code (N)", N being the code in decimal.
\<close>

theorem C7_Error_rendering:
  "(CommandError.StatusCode e = 28 \<longrightarrow>
      sublist ''A script did not complete before its timeout expired.'' (Error e)) \<and>
   (CommandError.StatusCode e \<noteq> - 1 \<and> statusCodeStrings (CommandError.StatusCode e) = None \<longrightarrow>
      sublist (''unknown status code ('' @ Itoa (CommandError.StatusCode e) @ '')'') (Error e))"
proof (intro conjI impI)
  assume "CommandError.StatusCode e = 28"
  then have "\<exists>m. Error e = m @ ''A script did not complete before its timeout expired.'' @ '': '' @ Message e"
    by (simp add: Error_def Let_def statusCodeStrings_28)
  then show "sublist ''A script did not complete before its timeout expired.'' (Error e)"
    by (auto simp: sublist_def)
next
  assume "CommandError.StatusCode e \<noteq> - 1 \<and> statusCodeStrings (CommandError.StatusCode e) = None"
  then have "\<exists>m. Error e = m @ (''unknown status code ('' @ Itoa (CommandError.StatusCode e) @ '')'') @ '': '' @ Message e"
    by (simp add: Error_def Let_def)
  then show "sublist (''unknown status code ('' @ Itoa (CommandError.StatusCode e) @ '')'') (Error e)"
    unfolding sublist_def by blast
qed

theorem C7_Error_rendering_witness:
  "sublist ''A script did not complete before its timeout expired.''
     (Error \<lparr>CommandError.StatusCode = 28, ErrorType = ''500: Failed Command'', Message = ''timed out'',
             Screen = [], Class = [], StackTrace = []\<rparr>) \<and>
   sublist ''unknown status code (99)''
     (Error \<lparr>CommandError.StatusCode = 99, ErrorType = [], Message = ''boom'',
             Screen = [], Class = [], StackTrace = []\<rparr>)"
  using C7_Error_rendering [of "\<lparr>CommandError.StatusCode = 28, ErrorType = ''500: Failed Command'',
             Message = ''timed out'', Screen = [], Class = [], StackTrace = []\<rparr>"]
    C7_Error_rendering [of "\<lparr>CommandError.StatusCode = 99, ErrorType = [], Message = ''boom'',
             Screen = [], Class = [], StackTrace = []\<rparr>"]
  by (simp add: statusCodeStrings_def Itoa_def digit_def showNat.simps)

section \<open>Theorems: the error classifier\<close>

text \<open>
  C6.  The claim: the category string of the classified error depends only on the HTTP
  status, and its numeric code is -1 when the inner status is 0 and the inner status
  otherwise.  \<open>parseError\<close> fills both fields so and then decodes the envelope's value
  into the same struct; a value that names the fields replaces them.  Here the HTTP status
  is 500 and the inner status 13, and the error comes out with code 99 and category
  "forged".
\<close>

theorem C6_parseError_overwritten:
  "parseError example_Unmarshal_CommandError 500
     \<lparr>RawSessionId = [], Status = 13, RawValue = forged_value\<rparr>
   = CommandError_ptr \<lparr>CommandError.StatusCode = 99, ErrorType = ''forged'', Message = ''boom'',
                       Screen = [], Class = [], StackTrace = []\<rparr>"
  by (simp add: parseError_def example_Unmarshal_CommandError_def forged_value_def
      responseCodeError_def)

text \<open>
  What holds of \<open>parseError\<close>: with inner status 0 the error is exactly the table entry
  with code -1; with a non-zero inner status the two fields are as claimed whenever
  decoding the value leaves them alone.
\<close>

lemma parseError_Status_0:
  assumes "Status jr = 0"
  shows "parseError dec c jr =
           CommandError_ptr \<lparr>CommandError.StatusCode = - 1, ErrorType = responseCodeError c,
                             Message = [], Screen = [], Class = [], StackTrace = []\<rparr>"
  using assms by (simp add: parseError_def)

lemma parseError_fields_kept:
  assumes "Status jr \<noteq> 0"
    and "\<And>e. CommandError.StatusCode (snd (dec (RawValue jr) e)) = CommandError.StatusCode e"
    and "\<And>e. ErrorType (snd (dec (RawValue jr) e)) = ErrorType e"
  shows "\<exists>e. parseError dec c jr = CommandError_ptr e \<and>
             CommandError.StatusCode e = Status jr \<and> ErrorType e = responseCodeError c"
proof -
  let ?e0 = "\<lparr>CommandError.StatusCode = Status jr, ErrorType = responseCodeError c,
              Message = [], Screen = [], Class = [], StackTrace = []\<rparr>"
  obtain err e1 where d: "dec (RawValue jr) ?e0 = (err, e1)"
    by (cases "dec (RawValue jr) ?e0")
  have "CommandError.StatusCode e1 = Status jr" "ErrorType e1 = responseCodeError c"
    using assms(2) [of ?e0] assms(3) [of ?e0] d by simp_all
  then show ?thesis
    using assms(1) d by (simp add: parseError_def)
qed

lemma responseCodeError_table:
  "responseCodeError 400 = ''400: Missing Command Parameters''"
  "responseCodeError 404 = ''404: Unknown command/Resource Not Found''"
  "responseCodeError 405 = ''405: Invalid Command Method''"
  "responseCodeError 500 = ''500: Failed Command''"
  "responseCodeError 501 = ''501: Unimplemented Command''"
  "c \<notin> {200, 400, 404, 405, 500, 501} \<Longrightarrow> responseCodeError c = ''Unknown error''"
  by (simp_all add: responseCodeError_def)

section \<open>Theorems: the transport\<close>

lemma newRequest_Inr:
  assumes "newRequest L method u data = Inr req"
  shows "Method req = method" and "URL req = u" and "request.Body req = data"
    and "Header req ''Content-Type'' =
           (if method = ''POST'' then Some [''application/json;charset=utf-8''] else None)"
  using assms
  by (auto simp: newRequest_def Header_Add_def Header_Set_def Let_def split: option.splits if_splits)

lemma newRequest_Inr_iff:
  "(\<exists>req. newRequest L method u data = Inr req) \<longleftrightarrow> http_NewRequest L method u = None"
  by (auto simp: newRequest_def Let_def split: option.splits)

lemma doInternal_not_POST:
  assumes "method \<noteq> ''POST''"
  shows "doInternal L log params method u =
           (case newRequest L method u [] of
              Inl err \<Rightarrow> (Inl err, log)
            | Inr request \<Rightarrow>
                (case client_Do L log request of
                   Inl err \<Rightarrow> (Inl err, log @ [request])
                 | Inr response \<Rightarrow> (doInternal_response L response, log @ [request])))"
  using assms by (subst doInternal.simps) (simp split: sum.splits)




text \<open>
  C2.  When the response to a POST has status 302 or 303 and carries a Location that makes
  a well-formed request, \<open>doInternal\<close> hands exactly one further request to the HTTP
  client, a GET to that Location, and its result is what the second exchange gives (the
  decoded second response, or the client's error); the redirect response's body is never
  read, and no third request is made.
\<close>

theorem C2_redirect_followed_once:
  assumes body: "(case params of None \<Rightarrow> Inr ''{}'' | Some p \<Rightarrow> json_Marshal L p) = Inr body"
    and post: "newRequest L ''POST'' u body = Inr post"
    and r1: "client_Do L log post = Inr r1"
    and status: "StatusCode r1 = 302 \<or> StatusCode r1 = 303"
    and loc: "Location r1 = Inr loc"
    and get: "http_NewRequest L ''GET'' loc = None"
  shows "\<exists>get. doInternal L log params ''POST'' u =
           ((case client_Do L (log @ [post]) get of
               Inl err \<Rightarrow> Inl err
             | Inr r2 \<Rightarrow> doInternal_response L r2),
            log @ [post, get]) \<and>
          newRequest L ''GET'' loc [] = Inr get \<and>
          Method get = ''GET'' \<and> URL get = loc \<and> request.Body get = []"
proof -
  from get obtain g where g: "newRequest L ''GET'' loc [] = Inr g"
    using newRequest_Inr_iff by blast
  have red: "isRedirect r1" using status by (simp add: isRedirect_def Let_def)
  have "doInternal L log params ''POST'' u = doInternal L (log @ [post]) None ''GET'' loc"
    using body post r1 red loc by (subst doInternal.simps) simp
  also have "\<dots> = ((case client_Do L (log @ [post]) g of Inl err \<Rightarrow> Inl err
             | Inr r2 \<Rightarrow> doInternal_response L r2), log @ [post, g])"
    using g by (simp add: doInternal_not_POST split: sum.splits)
  finally show ?thesis using g newRequest_Inr [OF g] by blast
qed


theorem C2_redirect_followed_once_witness:
  \<open>doInternal (example_lib server_redirect) [] None ''POST'' ''http://host/session'' =
     (Inr (''abc'', ''{"browserName":"firefox"}''),
      [example_POST ''http://host/session'' ''{}'', example_GET ''http://host/session/abc''])\<close>
  using C2_redirect_followed_once [where params = None and L = "example_lib server_redirect"
      and body = "''{}''" and u = "''http://host/session''" and log = "[]"
      and post = "example_POST ''http://host/session'' ''{}''"
      and ?r1.0 = "\<lparr>StatusCode = 303, Location = Inr ''http://host/session/abc'', Body = Inr []\<rparr>"
      and loc = "''http://host/session/abc''"]
  by (simp add: example_defs)

lemma do_decoded:
  assumes m: "method = ''GET'' \<or> method = ''POST'' \<or> method = ''DELETE''"
    and body: "(if method = ''POST''
                then (case params of None \<Rightarrow> Inr ''{}'' | Some p \<Rightarrow> json_Marshal L p)
                else Inr []) = Inr body"
    and req: "newRequest L method (url w @ fmt_Sprintf L f args) body = Inr req"
    and resp: "client_Do L log req = Inr response"
    and nored: "\<not> (method = ''POST'' \<and> isRedirect response)"
  shows "do L w log params method f args = (doInternal_response L response, log @ [req])"
proof -
  have "do L w log params method f args =
          doInternal L log params method (url w @ fmt_Sprintf L f args)"
    using m by (auto simp: do_def)
  also have "\<dots> = (doInternal_response L response, log @ [req])"
    using body req resp nored by (subst doInternal.simps) auto
  finally show ?thesis .
qed

lemma doInternal_response_decoded:
  assumes "response.Body response = Inr buf" and "json_Unmarshal L buf = (err, jr)"
  shows "doInternal_response L response =
           (if err \<and> StatusCode response = 200 then
              Inl (errors_New ''error: response must be a JSON object'')
            else if StatusCode response \<ge> 400 \<or> Status jr \<noteq> 0 then
              Inl (parseError (json_Unmarshal_CommandError L) (StatusCode response) jr)
            else Inr (bytes_Trim (RawSessionId jr) [CHR ''{'', CHR ''}'', CHR 0x22], RawValue jr))"
  using assms by (simp add: doInternal_response_def)

lemma parseError_is_CommandError: "parseError dec c jr \<noteq> errors_New s"
  by (simp add: parseError_def Let_def split: prod.splits)

text \<open>
  C1 as stated fails: a GET answered with HTTP status 200 and a body that is not JSON has
  a status below 400 and an envelope whose inner status is 0 (the untouched zero struct),
  yet \<open>do\<close> returns an error (the protocol error), not the session id and value.
\<close>

theorem C1_counterexample:
  \<open>client_Do (example_lib (server_const 200 html_body)) [] (example_GET ''http://host/status'')
     = Inr \<lparr>StatusCode = 200, Location = no_Location, Body = Inr html_body\<rparr> \<and>
   (200 :: int) < 400 \<and>
   Status (snd (json_Unmarshal (example_lib (server_const 200 html_body)) html_body)) = 0 \<and>
   do (example_lib (server_const 200 html_body)) example_core [] None ''GET'' ''/status'' []
     = (Inl (errors_New ''error: response must be a JSON object''),
        [example_GET ''http://host/status''])\<close>
  by (simp add: do_def doInternal.simps example_defs)

text \<open>
  C1 (amended).  For a call to \<open>do\<close> whose request is built and sent, whose response is
  not a POST redirect to follow, whose body is read, and which is not the case of HTTP
  status 200 with an undecodable body: if the HTTP status is at least 400 or the inner
  status of the envelope is non-zero, \<open>do\<close> returns the classified error and no value;
  otherwise it returns the envelope's session id (trimmed of braces and double quotes) and
  the raw bytes of the envelope's value field, with no error.
\<close>

theorem C1_do_outcome:
  assumes m: "method = ''GET'' \<or> method = ''POST'' \<or> method = ''DELETE''"
    and body: "(if method = ''POST''
                then (case params of None \<Rightarrow> Inr ''{}'' | Some p \<Rightarrow> json_Marshal L p)
                else Inr []) = Inr body"
    and req: "newRequest L method (url w @ fmt_Sprintf L f args) body = Inr req"
    and resp: "client_Do L log req = Inr response"
    and nored: "\<not> (method = ''POST'' \<and> isRedirect response)"
    and buf: "response.Body response = Inr buf"
    and jr: "json_Unmarshal L buf = (err, jr)"
    and decoded: "\<not> (err \<and> StatusCode response = 200)"
  shows "fst (do L w log params method f args) =
           (if StatusCode response \<ge> 400 \<or> Status jr \<noteq> 0 then
              Inl (parseError (json_Unmarshal_CommandError L) (StatusCode response) jr)
            else Inr (bytes_Trim (RawSessionId jr) [CHR ''{'', CHR ''}'', CHR 0x22], RawValue jr))"
proof -
  have nd: "(err \<and> StatusCode response = 200) = False"
    using decoded by simp
  show ?thesis
    unfolding do_decoded [OF m body req resp nored] fst_conv
      doInternal_response_decoded [OF buf jr] nd if_False ..
qed

theorem C1_do_outcome_witness:
  \<open>fst (do (example_lib (server_const 500 timeout_body)) example_core []
          (Some ''{"script":"x"}'') ''POST'' ''/session/abc/execute_async'' [])
     = Inl (CommandError_ptr \<lparr>CommandError.StatusCode = 28, ErrorType = ''500: Failed Command'',
              Message = ''timed out'', Screen = [], Class = [], StackTrace = []\<rparr>)\<close>
proof -
  let ?L = "example_lib (server_const 500 timeout_body) :: (string, string) lib"
  let ?req = \<open>example_POST ''http://host/session/abc/execute_async'' ''{"script":"x"}''\<close>
  let ?resp = "\<lparr>StatusCode = 500, Location = no_Location, Body = Inr timeout_body\<rparr>"
  let ?jr = \<open>\<lparr>RawSessionId = ''"abc"'', Status = 28, RawValue = ''{"message":"timed out"}''\<rparr>\<close>
  have m: "''POST'' = ''GET'' \<or> ''POST'' = ''POST'' \<or> ''POST'' = ''DELETE''"
    by simp
  have body: \<open>(if ''POST'' = ''POST''
               then (case Some ''{"script":"x"}'' of None \<Rightarrow> Inr ''{}'' | Some p \<Rightarrow> json_Marshal ?L p)
               else Inr []) = Inr ''{"script":"x"}''\<close>
    by (simp add: example_defs)
  have req: \<open>newRequest ?L ''POST''
               (url example_core @ fmt_Sprintf ?L ''/session/abc/execute_async'' [])
               ''{"script":"x"}'' = Inr ?req\<close>
    by (simp add: example_defs)
  have resp: "client_Do ?L [] ?req = Inr ?resp"
    by (simp add: example_defs)
  have nored: "\<not> (''POST'' = ''POST'' \<and> isRedirect ?resp)"
    by (simp add: example_defs)
  have buf: "response.Body ?resp = Inr timeout_body"
    by simp
  have jr: "json_Unmarshal ?L timeout_body = (False, ?jr)"
    by (simp add: example_defs)
  have decoded: "\<not> (False \<and> StatusCode ?resp = 200)"
    by simp
  show ?thesis
    using C1_do_outcome [OF m body req resp nored buf jr decoded]
    by (simp add: example_defs)
qed

text \<open>
  C8 as stated fails in its last part: a body that is not JSON arriving with HTTP status
  204 is not routed to the error classifier; \<open>do\<close> returns an empty session id and an
  empty value with no error.
\<close>

theorem C8_counterexample:
  "client_Do (example_lib (server_const 204 [])) [] (example_GET ''http://host/status'')
     = Inr \<lparr>StatusCode = 204, Location = no_Location, Body = Inr []\<rparr> \<and>
   json_Unmarshal (example_lib (server_const 204 [])) [] = (True, zero_jsonResponse) \<and>
   fst (do (example_lib (server_const 204 [])) example_core [] None ''GET'' ''/status'' [])
     = Inr ([], []) \<and>
   fst (do (example_lib (server_const 204 [])) example_core [] None ''GET'' ''/status'' [])
     \<noteq> Inl (parseError (json_Unmarshal_CommandError (example_lib (server_const 204 []))) 204
               zero_jsonResponse)"
  by (simp add: do_def doInternal.simps example_defs)

text \<open>
  C8 (amended).  For a response that \<open>do\<close> decodes, the error "response must be a JSON
  object" is returned if and only if the HTTP status is exactly 200 and decoding the body
  reports an error.  A body that is not JSON (decoding fails and leaves the envelope
  empty) arriving with another status is routed to the error classifier with the empty
  envelope when the status is at least 400, and otherwise yields an empty session id and
  an empty value with no error.
\<close>

theorem C8_protocol_error:
  assumes m: "method = ''GET'' \<or> method = ''POST'' \<or> method = ''DELETE''"
    and body: "(if method = ''POST''
                then (case params of None \<Rightarrow> Inr ''{}'' | Some p \<Rightarrow> json_Marshal L p)
                else Inr []) = Inr body"
    and req: "newRequest L method (url w @ fmt_Sprintf L f args) body = Inr req"
    and resp: "client_Do L log req = Inr response"
    and nored: "\<not> (method = ''POST'' \<and> isRedirect response)"
    and buf: "response.Body response = Inr buf"
    and jr: "json_Unmarshal L buf = (err, jr)"
  shows "(fst (do L w log params method f args)
            = Inl (errors_New ''error: response must be a JSON object'')
          \<longleftrightarrow> err \<and> StatusCode response = 200) \<and>
         (err \<and> jr = zero_jsonResponse \<and> StatusCode response \<noteq> 200 \<longrightarrow>
            fst (do L w log params method f args)
              = (if StatusCode response \<ge> 400
                 then Inl (parseError (json_Unmarshal_CommandError L) (StatusCode response)
                             zero_jsonResponse)
                 else Inr ([], [])))"
proof -
  have eq: "fst (do L w log params method f args) =
      (if err \<and> StatusCode response = 200 then
              Inl (errors_New ''error: response must be a JSON object'')
            else if StatusCode response \<ge> 400 \<or> Status jr \<noteq> 0 then
              Inl (parseError (json_Unmarshal_CommandError L) (StatusCode response) jr)
            else Inr (bytes_Trim (RawSessionId jr) [CHR ''{'', CHR ''}'', CHR 0x22], RawValue jr))"
    unfolding do_decoded [OF m body req resp nored] fst_conv
      doInternal_response_decoded [OF buf jr] ..
  have first: "fst (do L w log params method f args)
            = Inl (errors_New ''error: response must be a JSON object'')
          \<longleftrightarrow> err \<and> StatusCode response = 200"
    unfolding eq using parseError_is_CommandError [of "json_Unmarshal_CommandError L" "StatusCode response" jr]
    by (auto simp del: parseError_def)
  have second: "fst (do L w log params method f args)
              = (if StatusCode response \<ge> 400
                 then Inl (parseError (json_Unmarshal_CommandError L) (StatusCode response)
                             zero_jsonResponse)
                 else Inr ([], []))"
    if "err" "jr = zero_jsonResponse" "StatusCode response \<noteq> 200"
    unfolding eq using that by (simp add: zero_jsonResponse_def bytes_Trim_def)
  show ?thesis using first second by blast
qed

theorem C8_protocol_error_witness:
  "fst (do (example_lib (server_const 404 html_body)) example_core [] None ''GET'' ''/nowhere'' [])
     = Inl (CommandError_ptr \<lparr>CommandError.StatusCode = - 1,
              ErrorType = ''404: Unknown command/Resource Not Found'',
              Message = [], Screen = [], Class = [], StackTrace = []\<rparr>) \<and>
   fst (do (example_lib (server_const 404 html_body)) example_core [] None ''GET'' ''/nowhere'' [])
     \<noteq> Inl (errors_New ''error: response must be a JSON object'')"
proof -
  let ?L = "example_lib (server_const 404 html_body) :: (string, string) lib"
  let ?req = "example_GET ''http://host/nowhere''"
  let ?resp = "\<lparr>StatusCode = 404, Location = no_Location, Body = Inr html_body\<rparr>"
  have m: "''GET'' = ''GET'' \<or> ''GET'' = ''POST'' \<or> ''GET'' = ''DELETE''"
    by simp
  have body: "(if ''GET'' = ''POST''
               then (case None of None \<Rightarrow> Inr ''{}'' | Some p \<Rightarrow> json_Marshal ?L p)
               else Inr []) = Inr []"
    by simp
  have req: "newRequest ?L ''GET'' (url example_core @ fmt_Sprintf ?L ''/nowhere'' []) [] = Inr ?req"
    by (simp add: example_defs)
  have resp: "client_Do ?L [] ?req = Inr ?resp"
    by (simp add: example_defs)
  have nored: "\<not> (''GET'' = ''POST'' \<and> isRedirect ?resp)"
    by simp
  have buf: "response.Body ?resp = Inr html_body"
    by simp
  have jr: "json_Unmarshal ?L html_body = (True, zero_jsonResponse)"
    by (simp add: example_defs)
  show ?thesis
    using C8_protocol_error [OF m body req resp nored buf jr]
    by (simp add: example_defs)
qed

section \<open>Theorems: the profile builder\<close>

lemma match_prefix_append: "match_prefix p (p @ s) = Some s"
  by (induction p) auto

lemma digit_val_digit: "d < 10 \<Longrightarrow> digit_val (digit d) = Some d"
proof -
  assume "d < 10"
  then have "d \<in> {0, 1, 2, 3, 4, 5, 6, 7, 8, 9}" by auto
  then show ?thesis by (auto simp: digit_def digit_val_def)
qed

lemma digit_in: "d < 10 \<Longrightarrow> digit d \<in> set ''0123456789''"
  unfolding digit_def by (rule nth_mem) simp

lemma read_digits_append:
  "read_digits acc (xs @ ys) =
     (case read_digits acc xs of None \<Rightarrow> None | Some a \<Rightarrow> read_digits a ys)"
  by (induction xs arbitrary: acc) (auto split: option.splits)

lemma read_digits_showNat: "read_digits 0 (showNat n) = Some n"
proof (induction n rule: showNat.induct)
  case (1 n)
  show ?case
  proof (cases "n < 10")
    case True
    then show ?thesis by (subst showNat.simps) (simp add: digit_val_digit)
  next
    case False
    have "read_digits 0 (showNat n) =
        read_digits 0 (showNat (n div 10) @ [digit (n mod 10)])"
      using False by (subst showNat.simps) simp
    also have "\<dots> = Some (10 * (n div 10) + n mod 10)"
      using 1 [OF False] by (simp add: read_digits_append digit_val_digit)
    finally show ?thesis by simp
  qed
qed

lemma showNat_set: "set (showNat n) \<subseteq> set ''0123456789''"
proof (induction n rule: showNat.induct)
  case (1 n)
  show ?case
  proof (cases "n < 10")
    case True
    then show ?thesis using digit_in [of n] by (subst showNat.simps) simp
  next
    case False
    then show ?thesis
      using 1 [OF False] digit_in [of "n mod 10"] by (subst showNat.simps) simp
  qed
qed

lemma showNat_not_Nil: "showNat n \<noteq> []"
  by (subst showNat.simps) simp

lemma showNat_chars: "c \<in> set (showNat n) \<Longrightarrow> c \<in> set ''0123456789''"
  using showNat_set by blast

lemma Itoa_chars:
  assumes "c \<in> set (Itoa i)"
  shows "c = CHR ''-'' \<or> c \<in> set ''0123456789''"
proof (cases "i < 0")
  case True
  then have "c = CHR ''-'' \<or> c \<in> set (showNat (nat (- i)))"
    using assms by (simp add: Itoa_def)
  then show ?thesis using showNat_chars by blast
next
  case False
  then have "c \<in> set (showNat (nat i))"
    using assms by (simp add: Itoa_def)
  then show ?thesis using showNat_chars by blast
qed

lemma Itoa_not_Nil: "Itoa i \<noteq> []"
  by (simp add: Itoa_def showNat_not_Nil)

lemma Atoi_Itoa: "Atoi (Itoa i) = Some i"
proof (cases "i < 0")
  case True
  have "Atoi (CHR ''-'' # showNat (nat (- i))) =
      map_option (\<lambda>n. - int n) (read_digits 0 (showNat (nat (- i))))"
    by (simp add: Atoi_def showNat_not_Nil)
  then show ?thesis
    using True by (simp add: Itoa_def read_digits_showNat)
next
  case False
  obtain c cs where s: "showNat (nat i) = c # cs"
    using showNat_not_Nil [of "nat i"] by (cases "showNat (nat i)") auto
  have "c \<in> set (showNat (nat i))" by (simp add: s)
  then have "c \<in> set ''0123456789''" by (rule showNat_chars)
  then have c: "c \<noteq> CHR ''-''" by auto
  have "Atoi (c # cs) = map_option int (read_digits 0 (c # cs))"
    using c by (simp add: Atoi_def)
  then have "Atoi (showNat (nat i)) = map_option int (read_digits 0 (showNat (nat i)))"
    by (simp only: s)
  then show ?thesis
    using False by (simp add: Itoa_def read_digits_showNat)
qed


lemma takeWhile_until: "q \<notin> set xs \<Longrightarrow> takeWhile (\<lambda>x. x \<noteq> q) (xs @ q # ys) = xs"
  by (induction xs) auto

lemma dropWhile_until: "q \<notin> set xs \<Longrightarrow> dropWhile (\<lambda>x. x \<noteq> q) (xs @ q # ys) = q # ys"
  by (induction xs) auto

lemma Itoa_no_paren: "CHR '')'' \<notin> set (Itoa i)"
  using Itoa_chars [of "CHR '')''" i] by auto

lemma Itoa_Cons:
  obtains c cs where "Itoa i = c # cs" and "c \<noteq> dquote" and "c \<noteq> CHR ''t''" and "c \<noteq> CHR ''f''"
proof -
  obtain c cs where s: "Itoa i = c # cs"
    using Itoa_not_Nil [of i] by (cases "Itoa i") auto
  then have "c \<in> set (Itoa i)" by simp
  then have "c = CHR ''-'' \<or> c \<in> set ''0123456789''" by (rule Itoa_chars)
  then have "c \<noteq> dquote \<and> c \<noteq> CHR ''t'' \<and> c \<noteq> CHR ''f''"
    by (auto simp: dquote_def)
  with s that show thesis by blast
qed

lemma read_value_bool:
  "read_value (render_value (pref_bool b) @ CHR '')'' # rest) = Some (pref_bool b, CHR '')'' # rest)"
  by (cases b) (simp_all add: read_value_def render_value_def dquote_def)

lemma read_value_int:
  "read_value (render_value (pref_int i) @ CHR '')'' # rest) = Some (pref_int i, CHR '')'' # rest)"
proof -
  obtain c cs where s: "Itoa i = c # cs" and c: "c \<noteq> dquote" "c \<noteq> CHR ''t''" "c \<noteq> CHR ''f''"
    by (rule Itoa_Cons)
  have tok: "takeWhile (\<lambda>x. x \<noteq> CHR '')'') (Itoa i @ CHR '')'' # rest) = Itoa i"
    by (rule takeWhile_until) (rule Itoa_no_paren)
  have rest: "dropWhile (\<lambda>x. x \<noteq> CHR '')'') (Itoa i @ CHR '')'' # rest) = CHR '')'' # rest"
    by (rule dropWhile_until) (rule Itoa_no_paren)
  have ne: "Itoa i \<noteq> ''true''" "Itoa i \<noteq> ''false''"
    using s c by auto
  have "read_value (Itoa i @ CHR '')'' # rest) =
      (let tok = takeWhile (\<lambda>x. x \<noteq> CHR '')'') (Itoa i @ CHR '')'' # rest);
           rest' = dropWhile (\<lambda>x. x \<noteq> CHR '')'') (Itoa i @ CHR '')'' # rest)
       in if tok = ''true'' then Some (pref_bool True, rest')
          else if tok = ''false'' then Some (pref_bool False, rest')
          else map_option (\<lambda>j. (pref_int j, rest')) (Atoi tok))"
    unfolding read_value_def s using c(1) by simp
  also have "\<dots> = Some (pref_int i, CHR '')'' # rest)"
    unfolding tok rest Let_def using ne by (simp add: Atoi_Itoa)
  finally show ?thesis by (simp add: render_value_def)
qed

lemma read_value_string:
  assumes "dquote \<notin> set x"
  shows "read_value (render_value (pref_string x) @ CHR '')'' # rest)
           = Some (pref_string x, CHR '')'' # rest)"
  using assms
  by (simp add: read_value_def render_value_def takeWhile_until dropWhile_until)

lemma read_value_render:
  assumes "quote_free (k, v)"
  shows "read_value (render_value v @ CHR '')'' # rest) = Some (v, CHR '')'' # rest)"
proof (cases v)
  case (pref_bool b)
  then show ?thesis by (simp only: read_value_bool)
next
  case (pref_int i)
  then show ?thesis by (simp only: read_value_int)
next
  case (pref_string x)
  then show ?thesis using assms by (simp add: quote_free_def read_value_string)
next
  case (pref_other t)
  then show ?thesis using assms by (simp add: quote_free_def)
qed

lemma read_statement_pref:
  assumes "quote_free e"
  shows "read_statement (pref_statement e @ rest) = Some (e, rest)"
proof -
  obtain k v where e: "e = (k, v)" by (cases e)
  have k: "dquote \<notin> set k" using assms e by (simp add: quote_free_def)
  let ?tail = "render_value v @ CHR '')'' # CHR '';'' # newline # rest"
  have shape: "pref_statement e @ rest = (''user_pref('' @ [dquote]) @ (k @ dquote # '', '' @ ?tail)"
    by (simp add: pref_statement_def e)
  have v: "read_value ?tail = Some (v, CHR '')'' # CHR '';'' # newline # rest)"
    using assms unfolding e by (rule read_value_render)
  show ?thesis
    unfolding read_statement_def shape match_prefix_append
    by (simp add: takeWhile_until dropWhile_until k v e)
qed

lemma write_prefs_Cons:
  assumes "supported v"
  shows "write_prefs ((k, v) # rest) =
           (fst (write_prefs rest), pref_statement (k, v) @ snd (write_prefs rest))"
  using assms
  by (cases v)
    (simp_all add: pref_statement_def render_value_def supported_def split: prod.splits)

lemma write_prefs_supported:
  assumes "\<forall>e\<in>set prefs. supported (snd e)"
  shows "write_prefs prefs = (None, concat (map pref_statement prefs))"
  using assms
proof (induction prefs)
  case Nil
  then show ?case by simp
next
  case (Cons e prefs)
  obtain k v where e: "e = (k, v)" by (cases e)
  from Cons have rest: "write_prefs prefs = (None, concat (map pref_statement prefs))" by simp
  from Cons.prems e have "supported v" by simp
  then show ?case
    unfolding e by (simp only: write_prefs_Cons rest fst_conv snd_conv list.map concat.simps)
qed

lemma write_prefs_unsupported:
  assumes "\<forall>e\<in>set pre. supported (snd e)"
  shows "fst (write_prefs (pre @ (k, pref_other t) # post))
           = Some (errors_New (cpferr @ ''unexpected preference type: '' @ k))"
  using assms
proof (induction pre)
  case Nil
  then show ?case by simp
next
  case (Cons e pre)
  obtain k' v where e: "e = (k', v)" by (cases e)
  from Cons have rest: "fst (write_prefs (pre @ (k, pref_other t) # post))
      = Some (errors_New (cpferr @ ''unexpected preference type: '' @ k))" by simp
  from Cons.prems e have "supported v" by simp
  then show ?case
    using rest by (simp add: e write_prefs_Cons del: write_prefs.simps)
qed

lemma read_statements_Suc:
  "s \<noteq> [] \<Longrightarrow> read_statements (Suc n) s =
     (case read_statement s of
        None \<Rightarrow> None
      | Some (e, rest) \<Rightarrow> map_option ((#) e) (read_statements n rest))"
  by (cases s) simp_all

lemma pref_statement_not_Nil: "pref_statement e @ rest \<noteq> []"
  by (simp add: pref_statement_def)

lemma read_statements_prefs:
  assumes "\<forall>e\<in>set prefs. quote_free e" and "length prefs \<le> n"
  shows "read_statements n (concat (map pref_statement prefs)) = Some prefs"
  using assms
proof (induction prefs arbitrary: n)
  case Nil
  then show ?case by simp
next
  case (Cons e prefs)
  then obtain m where n: "n = Suc m" and m: "length prefs \<le> m"
    by (cases n) auto
  let ?rest = "concat (map pref_statement prefs)"
  have ih: "read_statements m ?rest = Some prefs"
    using Cons.IH [OF _ m] Cons.prems(1) by simp
  have step: "read_statement (pref_statement e @ ?rest) = Some (e, ?rest)"
    using Cons.prems(1) by (simp add: read_statement_pref)
  have ne: "pref_statement e @ ?rest \<noteq> []"
    by (rule pref_statement_not_Nil)
  have "read_statements (Suc m) (pref_statement e @ ?rest) =
      (case read_statement (pref_statement e @ ?rest) of
         None \<Rightarrow> None
       | Some (e', rest) \<Rightarrow> map_option ((#) e') (read_statements m rest))"
    by (rule read_statements_Suc [OF ne])
  also have "\<dots> = Some (e # prefs)"
    by (simp add: step ih)
  finally show ?case by (simp add: n)
qed

lemma length_statements: "length prefs \<le> length (concat (map pref_statement prefs))"
proof (induction prefs)
  case Nil
  then show ?case by simp
next
  case (Cons e prefs)
  have "1 \<le> length (pref_statement e)" by (simp add: pref_statement_def)
  then show ?case using Cons by simp
qed

lemma read_user_js_prefs:
  assumes "\<forall>e\<in>set prefs. quote_free e"
  shows "read_user_js (concat (map pref_statement prefs)) = Some prefs"
  unfolding read_user_js_def using assms length_statements by (rule read_statements_prefs)

lemma quote_free_supported: "quote_free e \<Longrightarrow> supported (snd e)"
  by (cases "snd e") (simp_all add: quote_free_def supported_def)


lemma example_fs_dir: "createTempProfile_dir example_fs ''webdriver.xpi'' = Inr ''/tmp/webdriver1''"
  by (simp add: createTempProfile_dir_def example_fs_def filepath_Join_def writeExtensionFile_def)

text \<open>
  C5 as stated fails: the writer escapes nothing.  The one-entry map \<open>prefs_one\<close>, whose
  only value is a string, yields the very file that the two-entry map \<open>prefs_two\<close> yields:
  two statements for one entry, and reading it back gives \<open>prefs_two\<close>.
\<close>

theorem C5_counterexample:
  "prefs_one \<noteq> prefs_two \<and>
   createTempProfile example_fs ''webdriver.xpi'' prefs_one
     = createTempProfile example_fs ''webdriver.xpi'' prefs_two \<and>
   fst (createTempProfile example_fs ''webdriver.xpi'' prefs_one) = Inr ''/tmp/webdriver1'' \<and>
   read_user_js (snd (createTempProfile example_fs ''webdriver.xpi'' prefs_one)) = Some prefs_two"
proof -
  have a: "prefs_one \<noteq> prefs_two"
    by (simp add: prefs_one_def prefs_two_def)
  have two: "createTempProfile example_fs ''webdriver.xpi'' prefs_two
      = (Inr ''/tmp/webdriver1'', concat (map pref_statement prefs_two))"
    by (simp add: createTempProfile_def example_fs_dir prefs_two_def pref_statement_def
        render_value_def)
  have one: "createTempProfile example_fs ''webdriver.xpi'' prefs_one
      = (Inr ''/tmp/webdriver1'', concat (map pref_statement prefs_two))"
    by (simp add: createTempProfile_def example_fs_dir prefs_one_def prefs_two_def
        pref_statement_def render_value_def dquote_def)
  have "\<forall>e\<in>set prefs_two. quote_free e"
    by (simp add: prefs_two_def quote_free_def dquote_def)
  then have "read_user_js (concat (map pref_statement prefs_two)) = Some prefs_two"
    by (rule read_user_js_prefs)
  then show ?thesis using a one two by simp
qed

text \<open>
  C5 (amended).  Once the profile directory is set up: for a preference map whose values
  are all booleans, integers or strings, profile creation succeeds and writes exactly the
  statements \<open>user_pref("key", value);\<close>, one per entry in iteration order, booleans as
  \<open>true\<close>/\<open>false\<close>, integers in decimal, strings between double quotes; if moreover no key
  and no string value contains a double quote, reading the statements back gives the
  original entries; and if an entry has a value of another type, profile creation fails
  with the error "create profile failed: unexpected preference type: " followed by the
  key of the first such entry in iteration order.
\<close>

theorem C5_preferences_file:
  assumes "createTempProfile_dir E xpi = Inr p"
  shows "((\<forall>e\<in>set prefs. supported (snd e)) \<longrightarrow>
            createTempProfile E xpi prefs = (Inr p, concat (map pref_statement prefs))) \<and>
         ((\<forall>e\<in>set prefs. quote_free e) \<longrightarrow>
            read_user_js (concat (map pref_statement prefs)) = Some prefs) \<and>
         ((\<forall>e\<in>set pre. supported (snd e)) \<longrightarrow>
            fst (createTempProfile E xpi (pre @ (k, pref_other t) # post))
              = Inl (errors_New (cpferr @ ''unexpected preference type: '' @ k)))"
proof (intro conjI impI)
  assume "\<forall>e\<in>set prefs. supported (snd e)"
  then show "createTempProfile E xpi prefs = (Inr p, concat (map pref_statement prefs))"
    using assms by (simp add: createTempProfile_def write_prefs_supported)
next
  assume "\<forall>e\<in>set prefs. quote_free e"
  then show "read_user_js (concat (map pref_statement prefs)) = Some prefs"
    by (rule read_user_js_prefs)
next
  assume "\<forall>e\<in>set pre. supported (snd e)"
  then have "fst (write_prefs (pre @ (k, pref_other t) # post))
      = Some (errors_New (cpferr @ ''unexpected preference type: '' @ k))"
    by (rule write_prefs_unsupported)
  then show "fst (createTempProfile E xpi (pre @ (k, pref_other t) # post))
      = Inl (errors_New (cpferr @ ''unexpected preference type: '' @ k))"
    using assms
    by (cases "write_prefs (pre @ (k, pref_other t) # post)") (simp add: createTempProfile_def)
qed

theorem C5_preferences_file_witness:
  "createTempProfile example_fs ''webdriver.xpi'' prefs_plain
     = (Inr ''/tmp/webdriver1'', concat (map pref_statement prefs_plain)) \<and>
   read_user_js (concat (map pref_statement prefs_plain)) = Some prefs_plain \<and>
   fst (createTempProfile example_fs ''webdriver.xpi''
          ([(''app.update.auto'', pref_bool False)] @
           (''network.timeout'', pref_other ''float64'') # prefs_plain))
     = Inl (errors_New ''create profile failed: unexpected preference type: network.timeout'')"
proof -
  have q: "\<forall>e\<in>set prefs_plain. quote_free e"
    by (simp add: prefs_plain_def quote_free_def dquote_def)
  then have s: "\<forall>e\<in>set prefs_plain. supported (snd e)"
    using quote_free_supported by blast
  have u: "\<forall>e\<in>set [(''app.update.auto'', pref_bool False)]. supported (snd e)"
    by (simp add: supported_def)
  show ?thesis
    using C5_preferences_file [OF example_fs_dir, of prefs_plain
        "[(''app.update.auto'', pref_bool False)]" "''network.timeout''" "''float64''" prefs_plain]
      q s u
    by (simp add: cpferr_def)
qed

text \<open>The text written for \<open>prefs_plain\<close>.\<close>

lemma prefs_plain_text:
  \<open>concat (map pref_statement prefs_plain) =
     ''user_pref("browser.cache.disk.enable", false);'' @ [newline] @
     ''user_pref("webdriver_firefox_port", 7055);'' @ [newline] @
     ''user_pref("network.proxy.type", -1);'' @ [newline] @
     ''user_pref("browser.startup.homepage", "about:blank");'' @ [newline]\<close>
  by (simp add: prefs_plain_def pref_statement_def render_value_def Itoa_def showNat.simps
      digit_def dquote_def)

section \<open>Theorems: the process supervisor\<close>

lemma findPort_Some:
  "findPort env i = Inr (Some p) \<Longrightarrow>
     i \<le> p \<and> p < 65535 \<and> scan_Listen env p \<and> scan_Close env p = None \<and>
     (\<forall>j. i \<le> j \<and> j < p \<longrightarrow> \<not> scan_Listen env j)"
proof (induction env i rule: findPort.induct)
  case (1 env i)
  show ?case
  proof (cases "i < 65535 \<and> \<not> scan_Listen env i")
    case True
    then have "findPort env (i + 1) = Inr (Some p)"
      using "1.prems" by (subst (asm) findPort.simps) simp
    then have ih: "i + 1 \<le> p \<and> p < 65535 \<and> scan_Listen env p \<and> scan_Close env p = None \<and>
        (\<forall>j. i + 1 \<le> j \<and> j < p \<longrightarrow> \<not> scan_Listen env j)"
      using "1.IH" True by simp
    have "\<not> scan_Listen env j" if "i \<le> j \<and> j < p" for j
    proof (cases "j = i")
      case True
      then show ?thesis using \<open>i < 65535 \<and> \<not> scan_Listen env i\<close> by simp
    next
      case False
      then show ?thesis using ih that by simp
    qed
    then show ?thesis using ih by simp
  next
    case False
    then show ?thesis
      using "1.prems" by (subst (asm) findPort.simps) (auto split: if_splits option.splits)
  qed
qed

lemma findPort_None:
  "findPort env i = Inr None \<Longrightarrow> (\<forall>j. i \<le> j \<and> j < 65535 \<longrightarrow> \<not> scan_Listen env j)"
proof (induction env i rule: findPort.induct)
  case (1 env i)
  show ?case
  proof (cases "i < 65535 \<and> \<not> scan_Listen env i")
    case True
    then have "findPort env (i + 1) = Inr None"
      using "1.prems" by (subst (asm) findPort.simps) simp
    then have ih: "\<forall>j. i + 1 \<le> j \<and> j < 65535 \<longrightarrow> \<not> scan_Listen env j"
      using "1.IH" True by simp
    have "\<not> scan_Listen env j" if "i \<le> j \<and> j < 65535" for j
    proof (cases "j = i")
      case True
      then show ?thesis using \<open>i < 65535 \<and> \<not> scan_Listen env i\<close> by simp
    next
      case False
      then show ?thesis using ih that by simp
    qed
    then show ?thesis by simp
  next
    case False
    then show ?thesis
      using "1.prems" by (subst (asm) findPort.simps) (auto split: if_splits option.splits)
  qed
qed

lemma Start_port_zero:
  assumes "Port d = 0"
  shows "FirefoxDriver_Start_port env d =
           (case lockPort (lock_attempts env) (LockPortTimeout d) of
              Return None \<Rightarrow>
                (case findPort env 7055 of
                   Inl err \<Rightarrow> (Return (Some err), d\<lparr>Port := 7055\<rparr>)
                 | Inr None \<Rightarrow> (Return None, d\<lparr>Port := 7055\<rparr>)
                 | Inr (Some i) \<Rightarrow> (Return None, d\<lparr>Port := i\<rparr>))
            | r \<Rightarrow> (r, d\<lparr>Port := 7055\<rparr>))"
  using assms
  by (simp add: FirefoxDriver_Start_port_def Let_def
      split: outcome.splits option.splits sum.splits)

lemma findPort_busy:
  "(\<forall>j. i \<le> j \<and> j < 65535 \<longrightarrow> \<not> scan_Listen env j) \<Longrightarrow> findPort env i = Inr None"
proof (induction env i rule: findPort.induct)
  case (1 env i)
  show ?case
  proof (cases "i < 65535")
    case True
    then have busy: "\<not> scan_Listen env i" using "1.prems" by simp
    have "findPort env (i + 1) = Inr None"
      using "1.IH" [OF True busy] "1.prems" by simp
    then show ?thesis using True busy by (subst findPort.simps) simp
  next
    case False
    then show ?thesis by (subst findPort.simps) simp
  qed
qed

lemmas supervisor_defs = example_os_def example_os_no_binary_def example_firefox_def
  example_chrome_def NewFirefoxDriver_def NewChromeDriver_def example_fs_def

lemma findPort_example: "findPort example_os 7055 = Inr (Some 7057)"
  by (simp add: findPort.simps example_os_def)

text \<open>
  C9 as stated fails in its last part: the scan has no error path for running out.  When
  a test listener opens on no port from 7055 to 65534, the port block of
  \<open>FirefoxDriver.Start\<close> is passed without an error and the driver keeps port 7055, on
  which no test listener could be opened.
\<close>

theorem C9_counterexample:
  "FirefoxDriver_Start_port example_os_busy example_firefox
     = (Return None, example_firefox\<lparr>Port := 7055\<rparr>) \<and>
   Port (example_firefox\<lparr>Port := 7055\<rparr>) = 7055 \<and>
   \<not> scan_Listen example_os_busy 7055 \<and>
   (\<forall>i. \<not> scan_Listen example_os_busy i)"
proof -
  have p0: "Port example_firefox = 0"
    by (simp add: example_firefox_def NewFirefoxDriver_def)
  have lock: "lockPort (lock_attempts example_os_busy) (LockPortTimeout example_firefox)
      = Return None"
    by (simp add: example_os_busy_def supervisor_defs)
  have scan: "findPort example_os_busy 7055 = Inr None"
    by (rule findPort_busy) (simp add: example_os_busy_def)
  have run: "FirefoxDriver_Start_port example_os_busy example_firefox
      = (Return None, example_firefox\<lparr>Port := 7055\<rparr>)"
    by (simp add: Start_port_zero [OF p0] lock scan)
  have busy: "\<forall>i. \<not> scan_Listen example_os_busy i"
    by (simp add: example_os_busy_def)
  show ?thesis
    using run busy by simp
qed

text \<open>
  C9.  Whenever the port block of \<open>FirefoxDriver.Start\<close> is passed without an error, the
  port stored in the driver is not below the requested one: a non-zero request is kept as
  it is; with request 0 the port is at least 7055.  If a test listener opens on some port
  from 7055 to 65534, the port is the first such port, and its listener was closed without
  error; if it opens on none of them, the port is 7055.
\<close>

theorem C9_port_allocation:
  assumes "FirefoxDriver_Start_port env d = (Return None, d')"
  shows "Port d \<le> Port d' \<and>
         (Port d \<noteq> 0 \<longrightarrow> Port d' = Port d) \<and>
         (Port d = 0 \<longrightarrow>
            7055 \<le> Port d' \<and>
            ((\<exists>i. 7055 \<le> i \<and> i < 65535 \<and> scan_Listen env i) \<longrightarrow>
               Port d' < 65535 \<and>
               scan_Listen env (Port d') \<and> scan_Close env (Port d') = None \<and>
               (\<forall>j. 7055 \<le> j \<and> j < Port d' \<longrightarrow> \<not> scan_Listen env j)) \<and>
            (\<not> (\<exists>i. 7055 \<le> i \<and> i < 65535 \<and> scan_Listen env i) \<longrightarrow> Port d' = 7055))"
proof (cases "Port d = 0")
  case False
  then have "d' = d"
    using assms by (simp add: FirefoxDriver_Start_port_def)
  then show ?thesis using False by simp
next
  case True
  show ?thesis
  proof (cases "findPort env 7055")
    case (Inl err)
    then show ?thesis
      using assms
      by (simp add: Start_port_zero [OF True] split: outcome.splits option.splits)
  next
    case (Inr r)
    show ?thesis
    proof (cases r)
      case None
      then have none: "findPort env 7055 = Inr None" using Inr by simp
      then have "Port d' = 7055"
        using assms
        by (auto simp: Start_port_zero [OF True] split: outcome.splits option.splits)
      moreover have "\<not> (\<exists>i. 7055 \<le> i \<and> i < 65535 \<and> scan_Listen env i)"
        using findPort_None [OF none] by blast
      ultimately show ?thesis using True by simp
    next
      case (Some p)
      then have some: "findPort env 7055 = Inr (Some p)" using Inr by simp
      then have "Port d' = p"
        using assms
        by (auto simp: Start_port_zero [OF True] split: outcome.splits option.splits)
      moreover have "\<exists>i. 7055 \<le> i \<and> i < 65535 \<and> scan_Listen env i"
        using findPort_Some [OF some] by blast
      ultimately show ?thesis using findPort_Some [OF some] True by simp
    qed
  qed
qed

theorem C9_port_allocation_witness:
  "FirefoxDriver_Start_port example_os example_firefox
     = (Return None, example_firefox\<lparr>Port := 7057\<rparr>) \<and>
   Port (example_firefox\<lparr>Port := 7057\<rparr>) = 7057 \<and>
   \<not> scan_Listen example_os 7055 \<and> \<not> scan_Listen example_os 7056 \<and>
   scan_Listen example_os 7057"
proof -
  have run: "FirefoxDriver_Start_port example_os example_firefox
     = (Return None, example_firefox\<lparr>Port := 7057\<rparr>)"
  proof -
    have p0: "Port example_firefox = 0"
      by (simp add: example_firefox_def NewFirefoxDriver_def)
    have lock: "lockPort (lock_attempts example_os) (LockPortTimeout example_firefox) = Return None"
      by (simp add: supervisor_defs)
    show ?thesis
      by (simp add: Start_port_zero [OF p0] lock findPort_example)
  qed
  show ?thesis
    using C9_port_allocation [OF run] run by (simp add: supervisor_defs)
qed


lemma createTempProfile_supported:
  assumes "createTempProfile_dir E xpi = Inr p" and "\<forall>e\<in>set prefs. supported (snd e)"
  shows "fst (createTempProfile E xpi prefs) = Inr p"
  using assms by (simp add: createTempProfile_def write_prefs_supported)

lemma supported_update:
  assumes "\<forall>e\<in>set prefs. supported (snd e)" and "supported v"
  shows "\<forall>e\<in>set (AList.update k v prefs). supported (snd e)"
  using assms by (induction prefs) auto

lemma update_twice: "AList.update k v (AList.update k v xs) = AList.update k v xs"
  by (induction xs) auto

lemma prefs_plain_supported: "\<forall>e\<in>set prefs_plain. supported (snd e)"
  by (simp add: prefs_plain_def supported_def)

lemma example_profile:
  "fst (createTempProfile example_fs ''webdriver.xpi''
         (AList.update ''webdriver_firefox_port'' (pref_int p) prefs_plain))
     = Inr ''/tmp/webdriver1''"
  by (rule createTempProfile_supported [OF example_fs_dir])
    (rule supported_update [OF prefs_plain_supported], simp add: supported_def)

lemma Itoa_7057: "Itoa 7057 = ''7057''"
  by (simp add: Itoa_def showNat.simps digit_def)

lemma first_Start:
  "FirefoxDriver_Start example_os example_firefox = (Return None, started_firefox)"
proof -
  have p0: "Port example_firefox = 0"
    by (simp add: example_firefox_def NewFirefoxDriver_def)
  have lock: "lockPort (lock_attempts example_os) (LockPortTimeout example_firefox) = Return None"
    by (simp add: supervisor_defs)
  have port: "FirefoxDriver_Start_port example_os example_firefox
      = (Return None, example_firefox\<lparr>Port := 7057\<rparr>)"
    by (simp add: Start_port_zero [OF p0] lock findPort_example)
  have launch: "FirefoxDriver_Start_launch example_os (example_firefox\<lparr>Port := 7057\<rparr>)
      = (Return None, started_firefox)"
    by (simp add: FirefoxDriver_Start_launch_def Let_def example_firefox_def NewFirefoxDriver_def
        example_os_def example_profile started_firefox_def Itoa_7057)
  show ?thesis
    by (simp add: FirefoxDriver_Start_def port launch)
qed

lemma example_os_again_facts:
  "lock_attempts example_os_again = lock_attempts example_os"
  "files example_os_again = files example_os"
  "OpenFile_LogFile example_os_again = None"
  "probe_attempts example_os_again = probe_attempts example_os"
  "cmd_Start example_os_again = Inr 4243"
  by (simp_all add: example_os_again_def example_os_def)

lemma second_Start:
  "FirefoxDriver_Start example_os_again started_firefox = (Return None, restarted_firefox)"
proof -
  have port: "FirefoxDriver_Start_port example_os_again started_firefox
      = (Return None, started_firefox)"
    by (simp add: FirefoxDriver_Start_port_def started_firefox_def)
  have launch: "FirefoxDriver_Start_launch example_os_again started_firefox
      = (Return None, restarted_firefox)"
    by (simp add: FirefoxDriver_Start_launch_def Let_def example_firefox_def NewFirefoxDriver_def
        example_os_again_facts example_os_def example_profile started_firefox_def
        restarted_firefox_def Itoa_7057 update_twice)
  show ?thesis
    by (simp add: FirefoxDriver_Start_def port launch)
qed

lemma failed_Start:
  "FirefoxDriver_Start example_os_no_binary example_firefox
     = (Return (Some (errors_New ''unable to start firefox: fork/exec: no such file or directory'')),
        failed_firefox)"
proof -
  have p0: "Port example_firefox = 0"
    by (simp add: example_firefox_def NewFirefoxDriver_def)
  have lock: "lockPort (lock_attempts example_os_no_binary) (LockPortTimeout example_firefox)
      = Return None"
    by (simp add: supervisor_defs)
  have fp: "findPort example_os_no_binary 7055 = Inr (Some 7057)"
    by (simp add: findPort.simps example_os_def example_os_no_binary_def)
  have port: "FirefoxDriver_Start_port example_os_no_binary example_firefox
      = (Return None, example_firefox\<lparr>Port := 7057\<rparr>)"
    by (simp add: Start_port_zero [OF p0] lock fp)
  have launch: "FirefoxDriver_Start_launch example_os_no_binary (example_firefox\<lparr>Port := 7057\<rparr>)
      = (Return (Some (errors_New ''unable to start firefox: fork/exec: no such file or directory'')),
         failed_firefox)"
    by (simp add: FirefoxDriver_Start_launch_def Let_def example_firefox_def NewFirefoxDriver_def
        example_os_def example_os_no_binary_def example_profile failed_firefox_def)
  show ?thesis
    by (simp add: FirefoxDriver_Start_def port launch)
qed

text \<open>
  C3.  The claim: for both driver families \<open>Stop\<close> on a driver that is not running returns
  a state error, and the second of two consecutive \<open>Start\<close> calls returns a state error.
  \<open>FirefoxDriver.Start\<close> has no such check: after a successful \<open>Start\<close> (child 4242
  running), a second \<open>Start\<close> returns nil and has launched a second child (4243) over the
  first.  The lemmas after the theorem give the parts that hold: \<open>Stop\<close> on a driver that
  is not running, for both families, and the second \<open>Start\<close> of the Chrome driver.
\<close>

theorem C3_firefox_Start_twice:
  "FirefoxDriver_Start example_os example_firefox = (Return None, started_firefox) \<and>
   FirefoxDriver.cmd started_firefox
     = Some \<lparr>Path = ''/usr/bin/firefox'',
              Args = [''-no-remote'', ''-profile'', ''/tmp/webdriver1''], Process = Some 4242\<rparr> \<and>
   FirefoxDriver_Start example_os_again started_firefox = (Return None, restarted_firefox) \<and>
   FirefoxDriver.cmd restarted_firefox
     = Some \<lparr>Path = ''/usr/bin/firefox'',
              Args = [''-no-remote'', ''-profile'', ''/tmp/webdriver1''], Process = Some 4243\<rparr>"
  by (simp add: first_Start second_Start) (simp add: started_firefox_def restarted_firefox_def)

lemma FirefoxDriver_Stop_not_running:
  assumes "FirefoxDriver.cmd d = None"
  shows "FirefoxDriver_Stop d
           = (Return (Some (errors_New ''stop failed: firefoxdriver not running'')), d)"
  using assms by (simp add: FirefoxDriver_Stop_def)

lemma ChromeDriver_Stop_not_running:
  assumes "ChromeDriver.cmd d = None"
  shows "ChromeDriver_Stop d
           = (Return (Some (errors_New ''stop failed: chromedriver not running'')), d)"
  using assms by (simp add: ChromeDriver_Stop_def)

lemma new_drivers_not_running:
  "FirefoxDriver.cmd (NewFirefoxDriver defaults fp xp) = None"
  "ChromeDriver.cmd (NewChromeDriver port p) = None"
  by (simp_all add: NewFirefoxDriver_def NewChromeDriver_def)

lemma ChromeDriver_Start_running:
  assumes "ChromeDriver.cmd d \<noteq> None"
  shows "ChromeDriver_Start env d
           = (Return (Some (errors_New ''chromedriver start failed: chromedriver already running'')), d)"
    and "ChromeDriver_Start_freeport env d
           = (Return (Some (errors_New ''chromedriver start failed: chromedriver already running'')), d)"
  using assms by (simp_all add: ChromeDriver_Start_def ChromeDriver_Start_freeport_def csferr_def)

lemma ChromeDriver_Start_sets_cmd:
  assumes "ChromeDriver.cmd d = None" and "ChromeDriver_Start env d = (Return None, d')"
  shows "ChromeDriver.cmd d' \<noteq> None"
  using assms
  by (auto simp: ChromeDriver_Start_def Let_def split: option.splits sum.splits prod.splits if_splits)

lemma ChromeDriver_Start_freeport_sets_cmd:
  assumes "ChromeDriver.cmd d = None" and "ChromeDriver_Start_freeport env d = (Return None, d')"
  shows "ChromeDriver.cmd d' \<noteq> None"
  using assms
  by (auto simp: ChromeDriver_Start_freeport_def Let_def
      split: option.splits sum.splits prod.splits if_splits)

text \<open>
  C4.  The claim: when launching the child binary fails, the running marker is not set, so
  that \<open>Stop\<close> then returns a state error and a retried \<open>Start\<close> does not report the
  driver as running.  \<open>FirefoxDriver.Start\<close> assigns \<open>d.cmd\<close> before it launches: after a
  \<open>Start\<close> whose launch fails, \<open>d.cmd\<close> is set with a nil \<open>Process\<close>, and \<open>Stop\<close> passes
  its guard and dereferences that nil pointer instead of returning the state error.  The
  lemmas after the theorem show the same for the earlier \<open>ChromeDriver.Start\<close> (whose
  retried \<open>Start\<close> answers "already running"), and that the later \<open>ChromeDriver.Start\<close>,
  which launches through \<open>runBrowser\<close>, does what the claim says.
\<close>

theorem C4_firefox_failed_launch:
  "cmd_Start example_os_no_binary = Inl (lib_error ''fork/exec: no such file or directory'') \<and>
   FirefoxDriver_Start example_os_no_binary example_firefox
     = (Return (Some (errors_New ''unable to start firefox: fork/exec: no such file or directory'')),
        failed_firefox) \<and>
   FirefoxDriver.cmd failed_firefox
     = Some \<lparr>Path = ''/usr/bin/firefox'',
              Args = [''-no-remote'', ''-profile'', ''/tmp/webdriver1''], Process = None\<rparr> \<and>
   FirefoxDriver_Stop failed_firefox
     = (Panic ''invalid memory address or nil pointer dereference'',
        failed_firefox\<lparr>FirefoxDriver.cmd := None\<rparr>)"
  by (simp add: failed_Start)
    (simp add: failed_firefox_def FirefoxDriver_Stop_def example_os_no_binary_def example_os_def)

lemma Itoa_chrome: "Itoa 9515 = ''9515''" "Itoa 4 = ''4''"
  by (simp_all add: Itoa_def showNat.simps digit_def)

lemma ChromeDriver_Start_freeport_failed_launch:
  "ChromeDriver_Start_freeport example_os_no_binary example_chrome
     = (Return (Some (errors_New ''chromedriver start failed: fork/exec: no such file or directory'')),
        failed_chrome)"
  "ChromeDriver_Start_freeport example_os failed_chrome
     = (Return (Some (errors_New ''chromedriver start failed: chromedriver already running'')),
        failed_chrome)"
  "ChromeDriver_Stop failed_chrome
     = (Panic ''invalid memory address or nil pointer dereference'',
        failed_chrome\<lparr>ChromeDriver.cmd := None\<rparr>)"
  by (simp_all add: ChromeDriver_Start_freeport_def ChromeDriver_Stop_def Let_def csferr_def
      example_chrome_def NewChromeDriver_def example_os_no_binary_def example_os_def
      failed_chrome_def chrome_switches_def Itoa_chrome)

lemma ChromeDriver_Start_failed_launch:
  assumes "ChromeDriver.cmd d = None" and "cmd_Start env = Inl err"
  shows "ChromeDriver.cmd (snd (ChromeDriver_Start env d)) = None"
    and "ChromeDriver_Stop (snd (ChromeDriver_Start env d))
           = (Return (Some (errors_New ''stop failed: chromedriver not running'')),
              snd (ChromeDriver_Start env d))"
proof -
  show c: "ChromeDriver.cmd (snd (ChromeDriver_Start env d)) = None"
    using assms
    by (simp add: ChromeDriver_Start_def runBrowser_def Let_def split: option.splits)
  show "ChromeDriver_Stop (snd (ChromeDriver_Start env d))
           = (Return (Some (errors_New ''stop failed: chromedriver not running'')),
              snd (ChromeDriver_Start env d))"
    using c by (rule ChromeDriver_Stop_not_running)
qed

end
